theory Spec2Isabelle
  imports Main
begin

text \<open>
  The repository holds its server in four versions. \<^verbatim>\<open>src/server.js\<close> scans the pages of
  the user for a linked account. \<^verbatim>\<open>src/unnamed/part_000\<close> tries three lookup paths and
  adds the debug routes. \<^verbatim>\<open>src/unnamed/part_001\<close> holds two versions: the first reads its
  base address from the environment and looks at the first page only; the second
  reads every page under the access token of the page, fetches the name of the
  account and stores the page with it. The storage helpers and the routes for buckets
  and schedule are the same in all of them. Embedded here are \<^verbatim>\<open>server.js\<close>, \<^verbatim>\<open>part_000\<close>
  and the second version of \<^verbatim>\<open>part_001\<close>. Log lines are left out, except where
  evaluating one can throw.
\<close>

section \<open>JavaScript values\<close>

text \<open>
  The handlers of the server only move JSON data around: request bodies, provider
  responses and the two stored documents. A value is what \<^verbatim>\<open>JSON.parse\<close> builds, plus
  \<^verbatim>\<open>undefined\<close>, which every read of a missing property yields. An object is the list of
  its own properties in enumeration order. \<open>Num n\<close> is the integer-valued number \<open>n\<close>, of
  a magnitude that prints in full (below \<open>10^21\<close>); numbers with a fraction are not
  represented. A string is a list of characters, one per code unit; the code units
  from 256 on are not represented.
\<close>

datatype jsval =
    Undefined
  | Null
  | Bool bool
  | Num int
  | Str string
  | Arr "jsval list"
  | Obj "(string \<times> jsval) list"

text \<open>
  What a \<^verbatim>\<open>catch (err)\<close> receives: a rejected axios call, with \<^verbatim>\<open>err.response?.data\<close>
  (\<open>Undefined\<close> when there was no response) and \<^verbatim>\<open>err.message\<close>, or an error raised by
  the runtime or by \<^verbatim>\<open>throw new Error(msg)\<close>, with its name (\<^verbatim>\<open>Error\<close>, \<^verbatim>\<open>TypeError\<close>, ...)
  and its message.
\<close>

datatype exn = HttpError jsval string | JsError string string

definition quoted :: "string \<Rightarrow> string" where
  "quoted s = CHR 0x27 # s @ [CHR 0x27]"

definition type_error :: "string \<Rightarrow> exn" where
  "type_error msg = JsError ''TypeError'' msg"

text \<open>The test of \<^verbatim>\<open>if (v)\<close>, \<^verbatim>\<open>!v\<close>, \<^verbatim>\<open>a || b\<close> and \<^verbatim>\<open>a && b\<close>.\<close>

fun truthy :: "jsval \<Rightarrow> bool" where
  "truthy Undefined = False"
| "truthy Null = False"
| "truthy (Bool b) = b"
| "truthy (Num n) = (n \<noteq> 0)"
| "truthy (Str s) = (s \<noteq> [])"
| "truthy (Arr xs) = True"
| "truthy (Obj kvs) = True"

definition js_or :: "jsval \<Rightarrow> jsval \<Rightarrow> jsval" where
  "js_or a b = (if truthy a then a else b)"

definition nullish :: "jsval \<Rightarrow> bool" where
  "nullish v = (v = Undefined \<or> v = Null)"

definition own :: "(string \<times> jsval) list \<Rightarrow> string \<Rightarrow> jsval option" where
  "own kvs k = map_of kvs k"

text \<open>
  \<^verbatim>\<open>v.name\<close> for the property names the source writes out (\<^verbatim>\<open>data\<close>, \<^verbatim>\<open>id\<close>,
  \<^verbatim>\<open>access_token\<close>, \<^verbatim>\<open>length\<close>, ...). None of them is a member of a built-in prototype
  except \<^verbatim>\<open>length\<close>, which arrays and strings own, so the read is a lookup among the
  own properties. Reading a property of \<^verbatim>\<open>null\<close> or \<^verbatim>\<open>undefined\<close> throws a TypeError.
\<close>

fun get_field :: "jsval \<Rightarrow> string \<Rightarrow> exn + jsval" where
  "get_field Undefined k =
     Inl (type_error (''Cannot read properties of undefined (reading '' @ quoted k @ '')''))"
| "get_field Null k =
     Inl (type_error (''Cannot read properties of null (reading '' @ quoted k @ '')''))"
| "get_field (Obj kvs) k = Inr (case own kvs k of Some v \<Rightarrow> v | None \<Rightarrow> Undefined)"
| "get_field (Arr xs) k = Inr (if k = ''length'' then Num (int (length xs)) else Undefined)"
| "get_field (Str s) k = Inr (if k = ''length'' then Num (int (length s)) else Undefined)"
| "get_field (Bool b) k = Inr Undefined"
| "get_field (Num n) k = Inr Undefined"

text \<open>\<^verbatim>\<open>v?.name\<close>: \<^verbatim>\<open>undefined\<close> on \<^verbatim>\<open>null\<close> and \<^verbatim>\<open>undefined\<close>, the property otherwise.\<close>

definition opt_field :: "jsval \<Rightarrow> string \<Rightarrow> jsval" where
  "opt_field v k = (case get_field v k of Inl e \<Rightarrow> Undefined | Inr x \<Rightarrow> x)"

text \<open>\<^verbatim>\<open>v[0]\<close>.\<close>

fun index0 :: "jsval \<Rightarrow> exn + jsval" where
  "index0 Undefined = Inl (type_error (''Cannot read properties of undefined (reading '' @ quoted ''0'' @ '')''))"
| "index0 Null = Inl (type_error (''Cannot read properties of null (reading '' @ quoted ''0'' @ '')''))"
| "index0 (Arr xs) = Inr (case xs of [] \<Rightarrow> Undefined | x # _ \<Rightarrow> x)"
| "index0 (Str s) = Inr (case s of [] \<Rightarrow> Undefined | c # _ \<Rightarrow> Str [c])"
| "index0 (Obj kvs) = Inr (case own kvs ''0'' of Some v \<Rightarrow> v | None \<Rightarrow> Undefined)"
| "index0 (Bool b) = Inr Undefined"
| "index0 (Num n) = Inr Undefined"

text \<open>
  \<^verbatim>\<open>for (const x of v)\<close>: the elements of an array, the characters of a string; any other
  value is not iterable and the loop throws a TypeError before its first round.
\<close>

fun iterate :: "jsval \<Rightarrow> exn + jsval list" where
  "iterate (Arr xs) = Inr xs"
| "iterate (Str s) = Inr (map (\<lambda>c. Str [c]) s)"
| "iterate v = Inl (type_error ''value is not iterable'')"

subsection \<open>Conversion to a string\<close>

fun digits :: "nat \<Rightarrow> string" where
  "digits n = (if n < 10 then [char_of (48 + n)] else digits (n div 10) @ [char_of (48 + n mod 10)])"

definition show_int :: "int \<Rightarrow> string" where
  "show_int i = (if i < 0 then CHR ''-'' # digits (nat (- i)) else digits (nat i))"

text \<open>
  \<^verbatim>\<open>String(v)\<close>, a template literal \<^verbatim>\<open>`${v}`\<close> and the conversion of a property key
  \<^verbatim>\<open>o[v]\<close>. An array joins its elements with commas, \<^verbatim>\<open>null\<close> and \<^verbatim>\<open>undefined\<close> elements
  giving the empty string. An object goes through its \<^verbatim>\<open>toString\<close>: the inherited one
  answers \<^verbatim>\<open>[object Object]\<close>; an own property of that name, being data, is not callable,
  and then \<^verbatim>\<open>valueOf\<close> cannot give a primitive either, so the conversion throws.
\<close>

fun to_string :: "jsval \<Rightarrow> exn + string"
  and join_elems :: "jsval list \<Rightarrow> exn + string" where
  "to_string Undefined = Inr ''undefined''"
| "to_string Null = Inr ''null''"
| "to_string (Bool b) = Inr (if b then ''true'' else ''false'')"
| "to_string (Num n) = Inr (show_int n)"
| "to_string (Str s) = Inr s"
| "to_string (Arr xs) = join_elems xs"
| "to_string (Obj kvs) =
     (if ''toString'' \<in> set (map fst kvs)
      then Inl (type_error ''Cannot convert object to primitive value'')
      else Inr ''[object Object]'')"
| "join_elems [] = Inr []"
| "join_elems (x # xs) =
     (case (if x = Undefined \<or> x = Null then Inr [] else to_string x) of
        Inl e \<Rightarrow> Inl e
      | Inr s \<Rightarrow>
          (if xs = [] then Inr s
           else (case join_elems xs of Inl e \<Rightarrow> Inl e | Inr r \<Rightarrow> Inr (s @ '','' @ r))))"

subsection \<open>Writing a property\<close>

definition is_digit :: "char \<Rightarrow> bool" where
  "is_digit c = ((48::nat) \<le> of_char c \<and> of_char c \<le> (57::nat))"

definition dec_value :: "string \<Rightarrow> nat" where
  "dec_value s = foldl (\<lambda>a c. 10 * a + (of_char c - 48)) 0 s"

text \<open>
  An array index is the decimal form of an integer below \<open>2^32 - 1\<close>, which has ten
  digits at most. An object enumerates such keys first, in ascending order, then the
  other keys in the order they were added.
\<close>

definition is_array_index :: "string \<Rightarrow> bool" where
  "is_array_index s =
     (s \<noteq> [] \<and> length s \<le> 10 \<and> list_all is_digit s \<and> (s = ''0'' \<or> hd s \<noteq> CHR ''0'')
      \<and> dec_value s < 4294967295)"

fun insert_index :: "string \<Rightarrow> jsval \<Rightarrow> (string \<times> jsval) list \<Rightarrow> (string \<times> jsval) list" where
  "insert_index k v [] = [(k, v)]"
| "insert_index k v ((k', v') # r) =
     (if is_array_index k' \<and> dec_value k' < dec_value k
      then (k', v') # insert_index k v r
      else (k, v) # (k', v') # r)"

fun replace_own :: "string \<Rightarrow> jsval \<Rightarrow> (string \<times> jsval) list \<Rightarrow> (string \<times> jsval) list" where
  "replace_own k v [] = []"
| "replace_own k v ((k', v') # r) =
     (if k' = k then (k, v) # r else (k', v') # replace_own k v r)"

text \<open>
  \<^verbatim>\<open>o[k] = v\<close> on the own properties of an object: an existing property keeps its
  place, a new one is added. The key \<^verbatim>\<open>__proto__\<close>, when the object does not own it,
  is the inherited setter: the assignment changes the prototype and adds no property.
\<close>

definition obj_set :: "(string \<times> jsval) list \<Rightarrow> string \<Rightarrow> jsval \<Rightarrow> (string \<times> jsval) list" where
  "obj_set kvs k v =
     (if k \<in> set (map fst kvs) then replace_own k v kvs
      else if k = ''__proto__'' then kvs
      else if is_array_index k then insert_index k v kvs
      else kvs @ [(k, v)])"

section \<open>Storage helpers\<close>

text \<open>
  \<^verbatim>\<open>JSON.stringify(data, null, 2)\<close> is kept as the value that \<^verbatim>\<open>JSON.parse\<close> reads back
  from the text it produces: a property whose value is \<^verbatim>\<open>undefined\<close> is left out, an
  \<^verbatim>\<open>undefined\<close> element of an array becomes \<^verbatim>\<open>null\<close>, and \<^verbatim>\<open>JSON.stringify(undefined)\<close>
  is \<^verbatim>\<open>undefined\<close>, not a text.
\<close>

fun clean :: "jsval \<Rightarrow> jsval"
  and clean_elems :: "jsval list \<Rightarrow> jsval list"
  and clean_props :: "(string \<times> jsval) list \<Rightarrow> (string \<times> jsval) list" where
  "clean (Arr xs) = Arr (clean_elems xs)"
| "clean (Obj kvs) = Obj (clean_props kvs)"
| "clean Undefined = Undefined"
| "clean Null = Null"
| "clean (Bool b) = Bool b"
| "clean (Num n) = Num n"
| "clean (Str s) = Str s"
| "clean_elems [] = []"
| "clean_elems (x # xs) = (if x = Undefined then Null else clean x) # clean_elems xs"
| "clean_props [] = []"
| "clean_props ((k, v) # kvs) =
     (if v = Undefined then clean_props kvs else (k, clean v) # clean_props kvs)"

definition stringify :: "jsval \<Rightarrow> jsval option" where
  "stringify v = (if v = Undefined then None else Some (clean v))"

text \<open>The values of the JSON data model: no \<^verbatim>\<open>undefined\<close> anywhere inside.\<close>

fun is_json :: "jsval \<Rightarrow> bool"
  and is_json_elems :: "jsval list \<Rightarrow> bool"
  and is_json_props :: "(string \<times> jsval) list \<Rightarrow> bool" where
  "is_json Undefined = False"
| "is_json Null = True"
| "is_json (Bool b) = True"
| "is_json (Num n) = True"
| "is_json (Str s) = True"
| "is_json (Arr xs) = is_json_elems xs"
| "is_json (Obj kvs) = is_json_props kvs"
| "is_json_elems [] = True"
| "is_json_elems (x # xs) = (is_json x \<and> is_json_elems xs)"
| "is_json_props [] = True"
| "is_json_props ((k, v) # kvs) = (is_json v \<and> is_json_props kvs)"

text \<open>
  The text of a file, as far as \<^verbatim>\<open>loadJSON\<close> can tell texts apart: the empty text, a
  text that \<^verbatim>\<open>JSON.parse\<close> rejects, and a text that it reads as a value. A path holds
  nothing, a text, or something that exists and cannot be read (a directory, a file
  without read permission).
\<close>

datatype ftext = Empty | Malformed | Encoded jsval

datatype fnode = NoRead | Text ftext

text \<open>
  The file system: what each path holds, and the paths at which \<^verbatim>\<open>fs.mkdirSync\<close> throws
  or \<^verbatim>\<open>fs.writeFileSync\<close> cannot open the file. Directories are not kept: nothing the
  server reads depends on them.
\<close>

record fsys =
  files :: "string \<Rightarrow> fnode option"
  refuses :: "string \<Rightarrow> bool"

definition existsSync :: "fsys \<Rightarrow> string \<Rightarrow> bool" where
  "existsSync fs file = (files fs file \<noteq> None)"

definition readFileSync :: "fsys \<Rightarrow> string \<Rightarrow> exn + ftext" where
  "readFileSync fs file =
     (case files fs file of
        None \<Rightarrow> Inl (JsError ''Error'' ''ENOENT: no such file or directory'')
      | Some NoRead \<Rightarrow> Inl (JsError ''Error'' ''EACCES: permission denied'')
      | Some (Text t) \<Rightarrow> Inr t)"

definition JSON_parse :: "ftext \<Rightarrow> exn + jsval" where
  "JSON_parse t =
     (case t of
        Empty \<Rightarrow> Inl (JsError ''SyntaxError'' ''Unexpected end of JSON input'')
      | Malformed \<Rightarrow> Inl (JsError ''SyntaxError'' ''Unexpected token in JSON'')
      | Encoded v \<Rightarrow> Inr v)"

text \<open>The body of the \<^verbatim>\<open>try\<close> block of \<^verbatim>\<open>loadJSON\<close>.\<close>

definition loadJSON_try :: "fsys \<Rightarrow> string \<Rightarrow> exn + jsval" where
  "loadJSON_try fs file =
     (if \<not> existsSync fs file then Inr (Obj [])
      else (case readFileSync fs file of
              Inl e \<Rightarrow> Inl e
            | Inr txt \<Rightarrow> (if txt \<noteq> Empty then JSON_parse txt else Inr (Obj []))))"

definition loadJSON :: "fsys \<Rightarrow> string \<Rightarrow> jsval" where
  "loadJSON fs file = (case loadJSON_try fs file of Inl e \<Rightarrow> Obj [] | Inr v \<Rightarrow> v)"

text \<open>
  \<^verbatim>\<open>saveJSON\<close>: a throw of \<^verbatim>\<open>mkdirSync\<close> or \<^verbatim>\<open>writeFileSync\<close> is caught and logged, and
  the file stays as it was; so it does when \<^verbatim>\<open>JSON.stringify\<close> gives \<^verbatim>\<open>undefined\<close>, which
  \<^verbatim>\<open>writeFileSync\<close> refuses as data.
\<close>

definition saveJSON :: "fsys \<Rightarrow> string \<Rightarrow> jsval \<Rightarrow> fsys" where
  "saveJSON fs file data =
     (if refuses fs file then fs
      else (case stringify data of
              None \<Rightarrow> fs
            | Some v \<Rightarrow> fs\<lparr>files := (files fs)(file \<mapsto> Text (Encoded v))\<rparr>))"

section \<open>Configuration, requests and responses\<close>

text \<open>
  The configuration read from the environment at startup. \<^verbatim>\<open>ACCOUNTS_FILE\<close> and
  \<^verbatim>\<open>SCHEDULE_FILE\<close> are the two paths that \<^verbatim>\<open>path.join\<close> builds from \<^verbatim>\<open>DATA_DIR\<close>.
\<close>

record config =
  FB_APP_ID :: string
  FB_APP_SECRET :: string
  ACCOUNTS_FILE :: string
  SCHEDULE_FILE :: string

text \<open>The files are created at startup when they do not exist.\<close>

definition ensure_files :: "config \<Rightarrow> fsys \<Rightarrow> fsys" where
  "ensure_files cfg fs =
     (let fs1 = (if \<not> existsSync fs (ACCOUNTS_FILE cfg) then saveJSON fs (ACCOUNTS_FILE cfg) (Obj [])
                 else fs)
      in if \<not> existsSync fs1 (SCHEDULE_FILE cfg)
         then saveJSON fs1 (SCHEDULE_FILE cfg) (Obj [(''times'', Arr [])])
         else fs1)"

text \<open>
  What a handler reads of a request: the headers and the protocol that
  \<^verbatim>\<open>buildBaseUrl\<close> looks at (\<open>None\<close> for a header that is not sent), \<^verbatim>\<open>req.query.code\<close>
  and \<^verbatim>\<open>req.body\<close> (\<open>Undefined\<close> when absent).
\<close>

record request =
  x_forwarded_proto :: "string option"
  protocol :: "string option"
  x_forwarded_host :: "string option"
  host :: "string option"
  query_code :: jsval
  body :: jsval

text \<open>
  A response: the status and what was sent. \<open>SendJson v\<close> is \<^verbatim>\<open>res.json\<close>, with \<open>v\<close> the
  value a client parses from the body. \<open>SendConnected\<close> and \<open>SendConnectedVia\<close> are the
  confirmation pages, the second one naming the account and the page.
  \<open>SendOAuthError d\<close> is the page \<^verbatim>\<open><pre>OAuth error: ...</pre>\<close> built from the detail
  \<open>d\<close>, which is shown as it is when it is a string and as JSON text otherwise.
  \<open>Uncaught e\<close> is the error page of the framework for an exception that left a handler.
\<close>

datatype sent =
    Send string
  | SendJson jsval
  | SendConnected
  | SendConnectedVia string string
  | SendOAuthError jsval
  | Uncaught exn

record response =
  status :: nat
  sent :: sent

definition res_json :: "nat \<Rightarrow> jsval \<Rightarrow> response" where
  "res_json st v = \<lparr>status = st, sent = SendJson (clean v)\<rparr>"

definition status_ok :: jsval where
  "status_ok = Obj [(''status'', Str ''ok'')]"

definition str_or :: "string option \<Rightarrow> string option \<Rightarrow> string option" where
  "str_or a b = (case a of Some (c # cs) \<Rightarrow> a | _ \<Rightarrow> b)"

definition buildBaseUrl :: "request \<Rightarrow> string" where
  "buildBaseUrl req =
     (let proto = str_or (str_or (x_forwarded_proto req) (protocol req)) (Some ''https'');
          hst = str_or (x_forwarded_host req) (host req)
      in (case proto of Some s \<Rightarrow> s | None \<Rightarrow> ''undefined'') @ ''://'' @
         (case hst of Some s \<Rightarrow> s | None \<Rightarrow> ''undefined''))"

section \<open>Minimal APIs\<close>

text \<open>
  \<^verbatim>\<open>Object.entries(v)\<close>: the own properties of an object, the elements of an array under
  their indices, the characters of a string; nothing for a number or a boolean; a
  TypeError for \<^verbatim>\<open>null\<close>.
\<close>

fun entries :: "jsval \<Rightarrow> exn + (string \<times> jsval) list" where
  "entries (Obj kvs) = Inr kvs"
| "entries (Arr xs) = Inr (zip (map digits [0..<length xs]) xs)"
| "entries (Str s) = Inr (zip (map digits [0..<length s]) (map (\<lambda>c. Str [c]) s))"
| "entries (Bool b) = Inr []"
| "entries (Num n) = Inr []"
| "entries v = Inl (type_error ''Cannot convert undefined or null to object'')"

text \<open>The callback of \<^verbatim>\<open>map\<close> in \<^verbatim>\<open>GET /accounts\<close> of \<^verbatim>\<open>server.js\<close>, one entry at a time.\<close>

fun list_entries :: "(string \<times> jsval) list \<Rightarrow> exn + jsval list" where
  "list_entries [] = Inr []"
| "list_entries ((accountId, acc) # r) =
     (case get_field acc ''username'' of
        Inl e \<Rightarrow> Inl e
      | Inr u \<Rightarrow>
          (case list_entries r of
             Inl e \<Rightarrow> Inl e
           | Inr l \<Rightarrow> Inr (Obj [(''accountId'', Str accountId), (''username'', u)] # l)))"

definition get_accounts :: "config \<Rightarrow> fsys \<Rightarrow> response" where
  "get_accounts cfg fs =
     (let accounts = loadJSON fs (ACCOUNTS_FILE cfg) in
      case entries accounts of
        Inl e \<Rightarrow> \<lparr>status = 500, sent = Uncaught e\<rparr>
      | Inr es \<Rightarrow>
          (case list_entries es of
             Inl e \<Rightarrow> \<lparr>status = 500, sent = Uncaught e\<rparr>
           | Inr l \<Rightarrow> res_json 200 (Arr l)))"

text \<open>
  The same route in the version that stores the page: the name is
  \<^verbatim>\<open>acc.igUsername || acc.username || `Instagram-${accountId}`\<close>.
\<close>

fun list_entries_page :: "(string \<times> jsval) list \<Rightarrow> exn + jsval list" where
  "list_entries_page [] = Inr []"
| "list_entries_page ((accountId, acc) # r) =
     (case get_field acc ''igUsername'' of
        Inl e \<Rightarrow> Inl e
      | Inr iu \<Rightarrow>
          (case list_entries_page r of
             Inl e \<Rightarrow> Inl e
           | Inr l \<Rightarrow>
               Inr (Obj [(''accountId'', Str accountId),
                         (''username'',
                            js_or (js_or iu (opt_field acc ''username''))
                              (Str (''Instagram-'' @ accountId))),
                         (''pageId'', opt_field acc ''pageId''),
                         (''pageName'', opt_field acc ''pageName'')] # l)))"

definition get_accounts_page :: "config \<Rightarrow> fsys \<Rightarrow> response" where
  "get_accounts_page cfg fs =
     (let accounts = loadJSON fs (ACCOUNTS_FILE cfg) in
      case entries accounts of
        Inl e \<Rightarrow> \<lparr>status = 500, sent = Uncaught e\<rparr>
      | Inr es \<Rightarrow>
          (case list_entries_page es of
             Inl e \<Rightarrow> \<lparr>status = 500, sent = Uncaught e\<rparr>
           | Inr l \<Rightarrow> res_json 200 (Arr l)))"

definition get_buckets :: "config \<Rightarrow> fsys \<Rightarrow> response" where
  "get_buckets cfg fs = res_json 200 (loadJSON fs (ACCOUNTS_FILE cfg))"

text \<open>
  One piece of state outlives a request inside the process. The route below can write
  the property \<^verbatim>\<open>buckets\<close> onto \<^verbatim>\<open>Object.prototype\<close>, and from then on every object that
  does not own a property of that name reads the value written there. No other name is
  ever written on a shared object, and no other route reads a property of this name.
  \<open>None\<close> is the runtime as it starts. \<open>Plain v\<close> is the value \<open>v\<close> held by
  \<^verbatim>\<open>Object.prototype.buckets\<close>. The value is shared by reference: the route can write the
  property \<^verbatim>\<open>buckets\<close> of that very value, and the value written can be the value itself.
  \<open>Knot kvs\<close> is such an object: its own properties are \<open>kvs\<close>, except that under
  \<^verbatim>\<open>buckets\<close> it holds itself (the entry of \<open>kvs\<close> under that key only marks the place).
  What the libraries of the server do with the added property is not followed.
\<close>

datatype shared = Plain jsval | Knot "(string \<times> jsval) list"

type_synonym runtime = "shared option"

fun shared_truthy :: "shared \<Rightarrow> bool" where
  "shared_truthy (Plain v) = truthy v"
| "shared_truthy (Knot kvs) = True"

text \<open>
  The value of the variable \<^verbatim>\<open>buckets\<close>: a value that came with the request, or the very
  value that \<^verbatim>\<open>Object.prototype\<close> holds.
\<close>

datatype bval = Fresh jsval | Same

text \<open>
  \<^verbatim>\<open>const { accountId, buckets } = req.body || {}\<close>, the part for \<^verbatim>\<open>buckets\<close>: the own
  property of the body, or else the inherited one. A body that is an array has
  \<^verbatim>\<open>Array.prototype\<close> before \<^verbatim>\<open>Object.prototype\<close>; what has been written there is not
  followed, so what is proved of this read is proved for bodies that are objects.
\<close>

definition read_buckets :: "runtime \<Rightarrow> jsval \<Rightarrow> bval" where
  "read_buckets rt b =
     (case (case b of Obj kvs \<Rightarrow> own kvs ''buckets'' | _ \<Rightarrow> None) of
        Some v \<Rightarrow> Fresh v
      | None \<Rightarrow> (case rt of None \<Rightarrow> Fresh Undefined | Some p \<Rightarrow> Same))"

text \<open>\<^verbatim>\<open>buckets || []\<close>.\<close>

definition or_empty :: "runtime \<Rightarrow> bval \<Rightarrow> bval" where
  "or_empty rt bv =
     (case bv of
        Fresh v \<Rightarrow> Fresh (js_or v (Arr []))
      | Same \<Rightarrow> (case rt of
                   Some p \<Rightarrow> (if shared_truthy p then Same else Fresh (Arr []))
                 | None \<Rightarrow> Fresh (Arr [])))"

text \<open>
  \<^verbatim>\<open>accounts[accountId]\<close>, a read under a key that the request chooses. The property is
  looked up among the own properties first and then along the prototype chain, where
  every object finds the members of \<^verbatim>\<open>Object.prototype\<close>: the prototype itself under
  \<^verbatim>\<open>__proto__\<close>, functions under the other names of the table, all of them truthy, and
  under \<^verbatim>\<open>buckets\<close> the value that an earlier request has put there. An array, a string,
  a number and a boolean have a prototype of their own before \<^verbatim>\<open>Object.prototype\<close>: the
  members that only those prototypes carry are not in the table and writes to those
  prototypes are not followed, so what is proved of this read is proved for documents
  that are objects.
\<close>

definition object_prototype_names :: "string list" where
  "object_prototype_names =
     [''constructor'', ''__defineGetter__'', ''__defineSetter__'', ''hasOwnProperty'',
      ''__lookupGetter__'', ''__lookupSetter__'', ''isPrototypeOf'', ''propertyIsEnumerable'',
      ''toString'', ''valueOf'', ''__proto__'', ''toLocaleString'']"

datatype member = Own jsval | ObjectPrototype | Builtin | ProtoBuckets | Absent

definition inherited :: "runtime \<Rightarrow> string \<Rightarrow> member" where
  "inherited rt k =
     (if k = ''__proto__'' then ObjectPrototype
      else if k \<in> set object_prototype_names then Builtin
      else if k = ''buckets'' \<and> rt \<noteq> None then ProtoBuckets
      else Absent)"

definition other_inherited :: "runtime \<Rightarrow> string \<Rightarrow> member" where
  "other_inherited rt k = (case inherited rt k of ObjectPrototype \<Rightarrow> Builtin | m \<Rightarrow> m)"

fun own_member :: "runtime \<Rightarrow> jsval \<Rightarrow> string \<Rightarrow> member" where
  "own_member rt (Obj kvs) k = (case own kvs k of Some v \<Rightarrow> Own v | None \<Rightarrow> inherited rt k)"
| "own_member rt (Arr xs) k =
     (if is_array_index k \<and> dec_value k < length xs then Own (xs ! dec_value k)
      else if k = ''length'' then Own (Num (int (length xs)))
      else other_inherited rt k)"
| "own_member rt (Str s) k =
     (if is_array_index k \<and> dec_value k < length s then Own (Str [s ! dec_value k])
      else if k = ''length'' then Own (Num (int (length s)))
      else other_inherited rt k)"
| "own_member rt v k = other_inherited rt k"

definition get_member :: "runtime \<Rightarrow> jsval \<Rightarrow> jsval \<Rightarrow> exn + member" where
  "get_member rt obj key =
     (if nullish obj then Inl (type_error ''Cannot read properties of undefined or null'')
      else (case to_string key of Inl e \<Rightarrow> Inl e | Inr k \<Rightarrow> Inr (own_member rt obj k)))"

fun member_truthy :: "runtime \<Rightarrow> member \<Rightarrow> bool" where
  "member_truthy rt (Own v) = truthy v"
| "member_truthy rt ObjectPrototype = True"
| "member_truthy rt Builtin = True"
| "member_truthy rt ProtoBuckets = (case rt of Some p \<Rightarrow> shared_truthy p | None \<Rightarrow> False)"
| "member_truthy rt Absent = False"

text \<open>
  The value to write, as a tree that \<^verbatim>\<open>JSON.stringify\<close> can walk: \<open>None\<close> for the object
  that holds itself.
\<close>

definition as_tree :: "runtime \<Rightarrow> bval \<Rightarrow> jsval option" where
  "as_tree rt bv =
     (case bv of
        Fresh v \<Rightarrow> Some v
      | Same \<Rightarrow> (case rt of
                   Some (Plain p) \<Rightarrow> Some p
                 | Some (Knot kvs) \<Rightarrow> None
                 | None \<Rightarrow> Some Undefined))"

text \<open>
  \<^verbatim>\<open>r.buckets = v\<close> on the record \<open>r\<close>: a property of an object is written; on an array
  the name is no index, so no element changes; on a string, a number or a boolean the
  assignment is dropped (the module is not in strict mode). \<open>None\<close> is a record that now
  holds the object that holds itself.
\<close>

fun set_buckets :: "jsval \<Rightarrow> jsval option \<Rightarrow> jsval option" where
  "set_buckets (Obj kvs) (Some v) = Some (Obj (obj_set kvs ''buckets'' v))"
| "set_buckets (Obj kvs) None = None"
| "set_buckets r v = Some r"

text \<open>
  The same assignment when the read has landed on the prototype chain. Under
  \<^verbatim>\<open>__proto__\<close> it writes \<^verbatim>\<open>Object.prototype.buckets\<close>. Under \<^verbatim>\<open>buckets\<close> it writes the
  property \<^verbatim>\<open>buckets\<close> of the shared value: own and in place when that is an object,
  without effect on what is ever read when it is an array or a primitive. On a
  function of the table it changes nothing that is ever read.
\<close>

fun set_inherited :: "runtime \<Rightarrow> member \<Rightarrow> bval \<Rightarrow> runtime" where
  "set_inherited rt ObjectPrototype (Fresh v) = Some (Plain v)"
| "set_inherited rt ObjectPrototype Same = rt"
| "set_inherited (Some (Plain (Obj kvs))) ProtoBuckets (Fresh v) =
     Some (Plain (Obj (obj_set kvs ''buckets'' v)))"
| "set_inherited (Some (Plain (Obj kvs))) ProtoBuckets Same =
     Some (Knot (obj_set kvs ''buckets'' Null))"
| "set_inherited (Some (Knot kvs)) ProtoBuckets (Fresh v) =
     Some (Plain (Obj (obj_set kvs ''buckets'' v)))"
| "set_inherited rt m bv = rt"

text \<open>
  \<^verbatim>\<open>accounts[accountId].buckets = v\<close>: the document as it is afterwards (\<open>None\<close> when it
  holds the object that holds itself) and the runtime. A record is changed in place,
  so an own property of the document keeps its position.
\<close>

fun write_buckets :: "runtime \<Rightarrow> jsval \<Rightarrow> string \<Rightarrow> bval \<Rightarrow> jsval option \<times> runtime" where
  "write_buckets rt (Obj kvs) k bv =
     (case own kvs k of
        Some r \<Rightarrow>
          (case set_buckets r (as_tree rt bv) of
             Some r' \<Rightarrow> (Some (Obj (replace_own k r' kvs)), rt)
           | None \<Rightarrow> (None, rt))
      | None \<Rightarrow> (Some (Obj kvs), set_inherited rt (inherited rt k) bv))"
| "write_buckets rt (Arr xs) k bv =
     (if is_array_index k \<and> dec_value k < length xs
      then (case set_buckets (xs ! dec_value k) (as_tree rt bv) of
              Some r' \<Rightarrow> (Some (Arr (xs[dec_value k := r'])), rt)
            | None \<Rightarrow> (None, rt))
      else if k = ''length'' then (Some (Arr xs), rt)
      else (Some (Arr xs), set_inherited rt (other_inherited rt k) bv))"
| "write_buckets rt (Str s) k bv =
     (if (is_array_index k \<and> dec_value k < length s) \<or> k = ''length'' then (Some (Str s), rt)
      else (Some (Str s), set_inherited rt (other_inherited rt k) bv))"
| "write_buckets rt d k bv = (Some d, set_inherited rt (other_inherited rt k) bv)"

text \<open>
  \<^verbatim>\<open>POST /buckets\<close>. On a document that holds the object that holds itself,
  \<^verbatim>\<open>JSON.stringify\<close> throws inside \<^verbatim>\<open>saveJSON\<close>, which catches it: nothing is written.
\<close>

definition post_buckets ::
  "config \<Rightarrow> runtime \<Rightarrow> fsys \<Rightarrow> request \<Rightarrow> response \<times> runtime \<times> fsys" where
  "post_buckets cfg rt fs req =
     (let b = js_or (body req) (Obj []);
          accountId = opt_field b ''accountId'';
          buckets = read_buckets rt b;
          accounts = loadJSON fs (ACCOUNTS_FILE cfg)
      in case get_member rt accounts accountId of
           Inl e \<Rightarrow> (\<lparr>status = 500, sent = Uncaught e\<rparr>, rt, fs)
         | Inr m \<Rightarrow>
             (if \<not> member_truthy rt m
              then (\<lparr>status = 400, sent = Send ''Account not found''\<rparr>, rt, fs)
              else (case to_string accountId of
                      Inl e \<Rightarrow> (\<lparr>status = 500, sent = Uncaught e\<rparr>, rt, fs)
                    | Inr k \<Rightarrow>
                        (case write_buckets rt accounts k (or_empty rt buckets) of
                           (None, rt') \<Rightarrow> (res_json 200 status_ok, rt', fs)
                         | (Some accounts', rt') \<Rightarrow>
                             (res_json 200 status_ok, rt',
                              saveJSON fs (ACCOUNTS_FILE cfg) accounts')))))"



section \<open>Debug\<close>

text \<open>
  \<^verbatim>\<open>GET /debug/read-accounts\<close>. The mask is \<^verbatim>\<open>`***len:${t.length}`\<close> in the first version
  and \<^verbatim>\<open>`***len:${String(t).length}`\<close> in the second.
\<close>

definition mask_length :: "jsval \<Rightarrow> exn + string" where
  "mask_length t =
     (case get_field t ''length'' of
        Inl e \<Rightarrow> Inl e
      | Inr n \<Rightarrow> (case to_string n of Inl e \<Rightarrow> Inl e | Inr s \<Rightarrow> Inr (''***len:'' @ s)))"

definition mask_string_length :: "jsval \<Rightarrow> exn + string" where
  "mask_string_length t =
     (case to_string t of Inl e \<Rightarrow> Inl e | Inr s \<Rightarrow> Inr (''***len:'' @ digits (length s)))"

fun set_token :: "jsval \<Rightarrow> jsval \<Rightarrow> jsval" where
  "set_token (Obj kvs) v = Obj (obj_set kvs ''accessToken'' v)"
| "set_token r v = r"

text \<open>One round of the loop, on the record \<^verbatim>\<open>acc[k]\<close>.\<close>

definition mask_record :: "(jsval \<Rightarrow> exn + string) \<Rightarrow> jsval \<Rightarrow> exn + jsval" where
  "mask_record mk r =
     (case get_field r ''accessToken'' of
        Inl e \<Rightarrow> Inl e
      | Inr t \<Rightarrow>
          (if truthy t
           then (case mk t of Inl e \<Rightarrow> Inl e | Inr s \<Rightarrow> Inr (set_token r (Str s)))
           else Inr r))"

fun mask_keys ::
  "(jsval \<Rightarrow> exn + string) \<Rightarrow> string list \<Rightarrow> (string \<times> jsval) list \<Rightarrow> exn + (string \<times> jsval) list" where
  "mask_keys mk [] kvs = Inr kvs"
| "mask_keys mk (k # ks) kvs =
     (case mask_record mk (case own kvs k of Some r \<Rightarrow> r | None \<Rightarrow> Undefined) of
        Inl e \<Rightarrow> Inl e
      | Inr r' \<Rightarrow> mask_keys mk ks (replace_own k r' kvs))"

fun mask_elems :: "(jsval \<Rightarrow> exn + string) \<Rightarrow> jsval list \<Rightarrow> exn + jsval list" where
  "mask_elems mk [] = Inr []"
| "mask_elems mk (x # xs) =
     (case mask_record mk x of
        Inl e \<Rightarrow> Inl e
      | Inr x' \<Rightarrow> (case mask_elems mk xs of Inl e \<Rightarrow> Inl e | Inr r \<Rightarrow> Inr (x' # r)))"

text \<open>The loop over \<^verbatim>\<open>Object.keys(acc)\<close>; the characters of a string carry no token.\<close>

fun mask_tokens :: "(jsval \<Rightarrow> exn + string) \<Rightarrow> jsval \<Rightarrow> exn + jsval" where
  "mask_tokens mk (Obj kvs) =
     (case mask_keys mk (map fst kvs) kvs of Inl e \<Rightarrow> Inl e | Inr kvs' \<Rightarrow> Inr (Obj kvs'))"
| "mask_tokens mk (Arr xs) =
     (case mask_elems mk xs of Inl e \<Rightarrow> Inl e | Inr xs' \<Rightarrow> Inr (Arr xs'))"
| "mask_tokens mk Undefined = Inl (type_error ''Cannot convert undefined or null to object'')"
| "mask_tokens mk Null = Inl (type_error ''Cannot convert undefined or null to object'')"
| "mask_tokens mk v = Inr v"

definition error_string :: "exn \<Rightarrow> string" where
  "error_string e =
     (case e of
        HttpError d m \<Rightarrow> ''AxiosError: '' @ m
      | JsError n m \<Rightarrow> (if m = [] then n else n @ '': '' @ m))"

definition debug_read_accounts_with ::
  "(jsval \<Rightarrow> exn + string) \<Rightarrow> config \<Rightarrow> fsys \<Rightarrow> response" where
  "debug_read_accounts_with mk cfg fs =
     (case mask_tokens mk (loadJSON fs (ACCOUNTS_FILE cfg)) of
        Inl e \<Rightarrow> res_json 500 (Obj [(''error'', Str (error_string e))])
      | Inr acc \<Rightarrow> res_json 200 acc)"

definition debug_read_accounts :: "config \<Rightarrow> fsys \<Rightarrow> response" where
  "debug_read_accounts = debug_read_accounts_with mask_length"

definition debug_read_accounts_page :: "config \<Rightarrow> fsys \<Rightarrow> response" where
  "debug_read_accounts_page = debug_read_accounts_with mask_string_length"

section \<open>OAuth callback\<close>

text \<open>
  The identity provider, as the handler sees it through \<^verbatim>\<open>axios.get(url, {params})\<close>:
  the \<^verbatim>\<open>data\<close> of the response, or the error the call rejects with. A run of the
  handler gets the same answer to the same request.
\<close>

type_synonym http = "string \<Rightarrow> (string \<times> jsval) list \<Rightarrow> exn + jsval"

definition graph :: string where
  "graph = ''https://graph.facebook.com/v17.0/''"

definition then_do :: "exn + 'a \<Rightarrow> ('a \<Rightarrow> exn + 'b) \<Rightarrow> exn + 'b" where
  "then_do m f = (case m of Inl e \<Rightarrow> Inl e | Inr x \<Rightarrow> f x)"

text \<open>\<^verbatim>\<open>err.response?.data || err.message\<close>.\<close>

definition detail :: "exn \<Rightarrow> jsval" where
  "detail err = (case err of HttpError d m \<Rightarrow> js_or d (Str m) | JsError n m \<Rightarrow> Str m)"

definition oauth_error :: "exn \<Rightarrow> response" where
  "oauth_error err = \<lparr>status = 500, sent = SendOAuthError (detail err)\<rparr>"

text \<open>
  Steps 1 and 2, the same in every version: the log line \<^verbatim>\<open>String(code).slice(0, 8)\<close>,
  the short-lived token, the long-lived token.
\<close>

definition exchange_tokens :: "config \<Rightarrow> http \<Rightarrow> jsval \<Rightarrow> string \<Rightarrow> exn + jsval" where
  "exchange_tokens cfg get code REDIRECT_URI =
     then_do (to_string code) (\<lambda>logged.
     then_do (get (graph @ ''oauth/access_token'')
                [(''client_id'', Str (FB_APP_ID cfg)),
                 (''client_secret'', Str (FB_APP_SECRET cfg)),
                 (''redirect_uri'', Str REDIRECT_URI),
                 (''code'', code)]) (\<lambda>shortData.
     then_do (get_field shortData ''access_token'') (\<lambda>shortToken.
     then_do (get (graph @ ''oauth/access_token'')
                [(''grant_type'', Str ''fb_exchange_token''),
                 (''client_id'', Str (FB_APP_ID cfg)),
                 (''client_secret'', Str (FB_APP_SECRET cfg)),
                 (''fb_exchange_token'', shortToken)]) (\<lambda>longData.
     get_field longData ''access_token''))))"

text \<open>
  One round of the loop over the pages: the request for the page node, all inside its
  own \<^verbatim>\<open>try\<close>, whose \<^verbatim>\<open>catch\<close> is empty. \<open>Some v\<close> is a round that ends in \<^verbatim>\<open>break\<close>.
\<close>

definition probe_page :: "http \<Rightarrow> jsval \<Rightarrow> jsval \<Rightarrow> jsval option" where
  "probe_page get token p =
     (case then_do (get_field p ''id'') (\<lambda>pid.
           then_do (to_string pid) (\<lambda>s.
           get (graph @ s)
             [(''fields'', Str ''instagram_business_account''), (''access_token'', token)])) of
        Inl e \<Rightarrow> None
      | Inr d \<Rightarrow>
          (let found = opt_field (opt_field d ''instagram_business_account'') ''id''
           in if truthy found then Some found else None))"

fun scan_pages :: "http \<Rightarrow> jsval \<Rightarrow> jsval list \<Rightarrow> jsval \<Rightarrow> jsval" where
  "scan_pages get token [] igAccountId = igAccountId"
| "scan_pages get token (p # ps) igAccountId =
     (case probe_page get token p of
        Some found \<Rightarrow> found
      | None \<Rightarrow> scan_pages get token ps igAccountId)"

subsection \<open>The three lookup paths\<close>

text \<open>
  Each path is a block of the handler that reads and writes the variable
  \<^verbatim>\<open>igAccountId\<close>; the second and the third run under \<^verbatim>\<open>if (!igAccountId)\<close>.
\<close>

definition path1 :: "http \<Rightarrow> jsval \<Rightarrow> jsval \<Rightarrow> jsval" where
  "path1 get longToken igAccountId =
     (case get (graph @ ''me/accounts'') [(''access_token'', longToken)] of
        Inl e \<Rightarrow> igAccountId
      | Inr d \<Rightarrow>
          (case iterate (js_or (opt_field d ''data'') (Arr [])) of
             Inl e \<Rightarrow> igAccountId
           | Inr pages \<Rightarrow> scan_pages get longToken pages igAccountId))"

definition path2 :: "http \<Rightarrow> jsval \<Rightarrow> jsval \<Rightarrow> jsval" where
  "path2 get longToken igAccountId =
     (if \<not> truthy igAccountId then
        (case get (graph @ ''me'')
                [(''fields'', Str ''instagram_business_accounts{id,username}''),
                 (''access_token'', longToken)] of
           Inl e \<Rightarrow> igAccountId
         | Inr d \<Rightarrow>
             (let igList = js_or (opt_field (opt_field d ''instagram_business_accounts'') ''data'')
                             (Arr [])
              in if truthy (opt_field igList ''length'')
                 then (case then_do (index0 igList) (\<lambda>first. get_field first ''id'') of
                         Inl e \<Rightarrow> igAccountId
                       | Inr found \<Rightarrow> found)
                 else igAccountId))
      else igAccountId)"

fun scan_accounts :: "jsval list \<Rightarrow> jsval \<Rightarrow> jsval" where
  "scan_accounts [] igAccountId = igAccountId"
| "scan_accounts (a # as) igAccountId =
     (let found = opt_field (opt_field a ''instagram_business_account'') ''id''
      in if truthy found then found else scan_accounts as igAccountId)"

definition path3 :: "http \<Rightarrow> jsval \<Rightarrow> jsval \<Rightarrow> jsval" where
  "path3 get longToken igAccountId =
     (if \<not> truthy igAccountId then
        (case get (graph @ ''me'')
                [(''fields'', Str ''accounts{id,name,instagram_business_account}''),
                 (''access_token'', longToken)] of
           Inl e \<Rightarrow> igAccountId
         | Inr d \<Rightarrow>
             (case iterate (js_or (opt_field (opt_field d ''accounts'') ''data'') (Arr [])) of
                Inl e \<Rightarrow> igAccountId
              | Inr accs \<Rightarrow> scan_accounts accs igAccountId))
      else igAccountId)"

definition find_account :: "http \<Rightarrow> jsval \<Rightarrow> jsval" where
  "find_account get longToken = path3 get longToken (path2 get longToken (path1 get longToken Null))"

definition no_account_found :: string where
  "no_account_found =
     ''No Instagram Business account found. On the consent screen, click '' @ [CHR 0x22] @
     ''Choose what you allow'' @ [CHR 0x22] @
     '' and select your Page and Instagram account; also ensure IG is linked to the Page.''"

text \<open>
  \<^verbatim>\<open>accounts[igAccountId] = { ... }\<close>: a TypeError on \<^verbatim>\<open>null\<close>; a property of an object;
  an element of an array when the key is an index (the elements skipped over are
  holes, which read as \<^verbatim>\<open>undefined\<close>), a RangeError under the key \<^verbatim>\<open>length\<close>, no element
  otherwise; dropped on a string, a number or a boolean.
\<close>

fun put_record :: "jsval \<Rightarrow> string \<Rightarrow> jsval \<Rightarrow> exn + jsval" where
  "put_record Undefined k r = Inl (type_error (''Cannot set properties of undefined (setting '' @ quoted k @ '')''))"
| "put_record Null k r = Inl (type_error (''Cannot set properties of null (setting '' @ quoted k @ '')''))"
| "put_record (Obj kvs) k r = Inr (Obj (obj_set kvs k r))"
| "put_record (Arr xs) k r =
     (if is_array_index k then
        Inr (Arr (if dec_value k < length xs then xs[dec_value k := r]
                  else xs @ replicate (dec_value k - length xs) Undefined @ [r]))
      else if k = ''length'' then Inl (JsError ''RangeError'' ''Invalid array length'')
      else Inr (Arr xs))"
| "put_record v k r = Inr v"

text \<open>
  The save step of \<^verbatim>\<open>server.js\<close> and of the version with three paths. The template
  literal of the record is evaluated first, then the assignment. \<open>k\<close> is
  \<^verbatim>\<open>`${igAccountId}`\<close>.
\<close>

definition plain_record :: "jsval \<Rightarrow> string \<Rightarrow> (string \<times> jsval) list" where
  "plain_record longToken k =
     [(''accessToken'', longToken), (''username'', Str (''Instagram-'' @ k)), (''buckets'', Arr [])]"

definition save_account :: "config \<Rightarrow> fsys \<Rightarrow> jsval \<Rightarrow> jsval \<Rightarrow> exn + fsys" where
  "save_account cfg fs longToken igAccountId =
     (let accounts = loadJSON fs (ACCOUNTS_FILE cfg) in
      then_do (to_string igAccountId) (\<lambda>k.
      then_do (put_record accounts k (Obj (plain_record longToken k))) (\<lambda>accounts'.
      Inr (saveJSON fs (ACCOUNTS_FILE cfg) accounts'))))"

text \<open>The \<^verbatim>\<open>try\<close> block of the callback with three lookup paths.\<close>

definition callback_paths_try :: "config \<Rightarrow> http \<Rightarrow> fsys \<Rightarrow> jsval \<Rightarrow> string \<Rightarrow> exn + fsys" where
  "callback_paths_try cfg get fs code REDIRECT_URI =
     then_do (exchange_tokens cfg get code REDIRECT_URI) (\<lambda>longToken.
     (let igAccountId = find_account get longToken in
      if \<not> truthy igAccountId then Inl (JsError ''Error'' no_account_found)
      else save_account cfg fs longToken igAccountId))"

definition callback_paths :: "config \<Rightarrow> http \<Rightarrow> fsys \<Rightarrow> request \<Rightarrow> response \<times> fsys" where
  "callback_paths cfg get fs req =
     (let code = query_code req in
      if \<not> truthy code then (\<lparr>status = 400, sent = Send ''No code returned''\<rparr>, fs)
      else (case callback_paths_try cfg get fs code
                   (buildBaseUrl req @ ''/auth/instagram/callback'') of
              Inl err \<Rightarrow> (oauth_error err, fs)
            | Inr fs' \<Rightarrow> (\<lparr>status = 200, sent = SendConnected\<rparr>, fs')))"

subsection \<open>The callback of \<^verbatim>\<open>server.js\<close>: pages only\<close>

definition find_on_user_pages :: "http \<Rightarrow> jsval \<Rightarrow> exn + jsval" where
  "find_on_user_pages get longToken =
     then_do (get (graph @ ''me/accounts'') [(''access_token'', longToken)]) (\<lambda>d.
     (let pages = js_or (opt_field d ''data'') (Arr []) in
      if \<not> truthy (opt_field pages ''length'')
      then Inl (JsError ''Error'' ''No Facebook Pages found for this user'')
      else then_do (iterate pages) (\<lambda>ps.
           (let igAccountId = scan_pages get longToken ps Null in
            if \<not> truthy igAccountId
            then Inl (JsError ''Error'' ''No Instagram Business account linked to any of the Pages'')
            else Inr igAccountId))))"

definition callback_pages_try :: "config \<Rightarrow> http \<Rightarrow> fsys \<Rightarrow> jsval \<Rightarrow> string \<Rightarrow> exn + fsys" where
  "callback_pages_try cfg get fs code REDIRECT_URI =
     then_do (exchange_tokens cfg get code REDIRECT_URI) (\<lambda>longToken.
     then_do (find_on_user_pages get longToken) (\<lambda>igAccountId.
     save_account cfg fs longToken igAccountId))"

definition callback_pages :: "config \<Rightarrow> http \<Rightarrow> fsys \<Rightarrow> request \<Rightarrow> response \<times> fsys" where
  "callback_pages cfg get fs req =
     (let code = query_code req in
      if \<not> truthy code then (\<lparr>status = 400, sent = Send ''No code returned''\<rparr>, fs)
      else (case callback_pages_try cfg get fs code
                   (buildBaseUrl req @ ''/auth/instagram/callback'') of
              Inl err \<Rightarrow> (oauth_error err, fs)
            | Inr fs' \<Rightarrow> (\<lparr>status = 200, sent = SendConnected\<rparr>, fs')))"

subsection \<open>The callback that uses page access tokens\<close>

text \<open>
  Step 3. The \<^verbatim>\<open>try\<close> assigns \<^verbatim>\<open>pages\<close> before its log line, so a throw of the log line
  leaves the assignment in place.
\<close>

definition list_pages :: "http \<Rightarrow> jsval \<Rightarrow> jsval" where
  "list_pages get userToken =
     (case get (graph @ ''me/accounts'')
             [(''access_token'', userToken), (''fields'', Str ''id,name,access_token'')] of
        Inl e \<Rightarrow> Arr []
      | Inr d \<Rightarrow> js_or (opt_field d ''data'') (Arr []))"

text \<open>
  Step 4. The test \<^verbatim>\<open>if (!p.access_token) continue\<close> stands before the \<^verbatim>\<open>try\<close> of the
  round: on a page that is \<^verbatim>\<open>null\<close> it throws out of the loop.
\<close>

fun scan_page_tokens :: "http \<Rightarrow> jsval list \<Rightarrow> exn + (jsval \<times> jsval) option" where
  "scan_page_tokens get [] = Inr None"
| "scan_page_tokens get (p # ps) =
     (case get_field p ''access_token'' of
        Inl e \<Rightarrow> Inl e
      | Inr t \<Rightarrow>
          (if \<not> truthy t then scan_page_tokens get ps
           else (case probe_page get t p of
                   Some found \<Rightarrow> Inr (Some (found, p))
                 | None \<Rightarrow> scan_page_tokens get ps)))"

definition no_pages_selected :: string where
  "no_pages_selected =
     ''No Facebook Pages found for this user (ensure you selected the Page on the consent screen).''"

text \<open>The arrow of the message is written as the three bytes of its UTF-8 form.\<close>

definition no_account_on_pages :: string where
  "no_account_on_pages =
     ''No Instagram Business account linked to any of the selected Pages. Make sure your IG is BUSINESS and linked to the Page you checked during consent (Page Settings '' @
     [CHR 0xE2, CHR 0x86, CHR 0x92] @ '' Linked Accounts).''"

definition find_on_pages :: "http \<Rightarrow> jsval \<Rightarrow> exn + jsval \<times> jsval" where
  "find_on_pages get userToken =
     (let pages = list_pages get userToken in
      if \<not> truthy (opt_field pages ''length'') then Inl (JsError ''Error'' no_pages_selected)
      else then_do (iterate pages) (\<lambda>ps.
           then_do (scan_page_tokens get ps) (\<lambda>r.
           (case r of
              None \<Rightarrow> Inl (JsError ''Error'' no_account_on_pages)
            | Some f \<Rightarrow> Inr f))))"

text \<open>
  Step 5: the name starts as the placeholder; the fetch is inside a \<^verbatim>\<open>try\<close> with an
  empty \<^verbatim>\<open>catch\<close>. \<open>k\<close> is \<^verbatim>\<open>`${igAccountId}`\<close>.
\<close>

definition fetch_username :: "http \<Rightarrow> string \<Rightarrow> jsval \<Rightarrow> jsval" where
  "fetch_username get k foundOnPage =
     (case get (graph @ k)
             [(''fields'', Str ''username''),
              (''access_token'', opt_field foundOnPage ''access_token'')] of
        Inl e \<Rightarrow> Str (''Instagram-'' @ k)
      | Inr d \<Rightarrow>
          (if truthy (opt_field d ''username'') then opt_field d ''username''
           else Str (''Instagram-'' @ k)))"

text \<open>The record that step 6 assigns.\<close>

definition page_record :: "http \<Rightarrow> jsval \<Rightarrow> string \<Rightarrow> jsval \<Rightarrow> (string \<times> jsval) list" where
  "page_record get userToken k foundOnPage =
     [(''accessToken'', userToken),
      (''pageId'', opt_field foundOnPage ''id''),
      (''pageName'', opt_field foundOnPage ''name''),
      (''igUsername'', fetch_username get k foundOnPage),
      (''buckets'', Arr [])]"

text \<open>
  Everything up to the assignment of step 6: the log line of step 4 with its template
  literal, the name, the record. The result is the document to save, the name and
  the page.
\<close>

definition prepare_account ::
  "config \<Rightarrow> http \<Rightarrow> fsys \<Rightarrow> jsval \<Rightarrow> string \<Rightarrow> exn + jsval \<times> jsval \<times> jsval" where
  "prepare_account cfg get fs code REDIRECT_URI =
     then_do (exchange_tokens cfg get code REDIRECT_URI) (\<lambda>userToken.
     then_do (find_on_pages get userToken) (\<lambda>(igAccountId, foundOnPage).
     then_do (to_string (opt_field foundOnPage ''name'')) (\<lambda>logged_name.
     then_do (to_string (opt_field foundOnPage ''id'')) (\<lambda>logged_id.
     then_do (to_string igAccountId) (\<lambda>k.
     (let igUsername = fetch_username get k foundOnPage;
          accounts = loadJSON fs (ACCOUNTS_FILE cfg)
      in then_do (put_record accounts k (Obj (page_record get userToken k foundOnPage)))
           (\<lambda>accounts'.
         Inr (accounts', igUsername, foundOnPage))))))))"

text \<open>
  Step 7 comes after the save: the confirmation page is a template literal over the
  name and the page name, and a throw there reaches the \<^verbatim>\<open>catch\<close> of the handler.
\<close>

definition callback_page_tokens :: "config \<Rightarrow> http \<Rightarrow> fsys \<Rightarrow> request \<Rightarrow> response \<times> fsys" where
  "callback_page_tokens cfg get fs req =
     (let code = query_code req in
      if \<not> truthy code then (\<lparr>status = 400, sent = Send ''No code returned''\<rparr>, fs)
      else (case prepare_account cfg get fs code
                   (buildBaseUrl req @ ''/auth/instagram/callback'') of
              Inl err \<Rightarrow> (oauth_error err, fs)
            | Inr (accounts', igUsername, foundOnPage) \<Rightarrow>
                (let fs' = saveJSON fs (ACCOUNTS_FILE cfg) accounts' in
                 case then_do (to_string igUsername) (\<lambda>u.
                      then_do (to_string (opt_field foundOnPage ''name'')) (\<lambda>n.
                      Inr (SendConnectedVia u n))) of
                   Inl err \<Rightarrow> (oauth_error err, fs')
                 | Inr page \<Rightarrow> (\<lparr>status = 200, sent = page\<rparr>, fs'))))"

section \<open>Notions used in the statements\<close>

text \<open>The two user-level requests of the second and the third lookup path.\<close>

definition me_ig_request :: "jsval \<Rightarrow> string \<times> (string \<times> jsval) list" where
  "me_ig_request longToken =
     (graph @ ''me'',
      [(''fields'', Str ''instagram_business_accounts{id,username}''), (''access_token'', longToken)])"

definition me_accounts_request :: "jsval \<Rightarrow> string \<times> (string \<times> jsval) list" where
  "me_accounts_request longToken =
     (graph @ ''me'',
      [(''fields'', Str ''accounts{id,name,instagram_business_account}''), (''access_token'', longToken)])"

text \<open>Two providers that answer alike to every request outside a given list.\<close>

definition same_except :: "http \<Rightarrow> http \<Rightarrow> (string \<times> (string \<times> jsval) list) list \<Rightarrow> bool" where
  "same_except get get' reqs =
     (\<forall>url params. (url, params) \<notin> set reqs \<longrightarrow> get' url params = get url params)"

text \<open>
  A document with the access tokens taken out of its records: two documents that
  differ only in token values are equal after this.
\<close>

fun strip_token :: "jsval \<Rightarrow> jsval" where
  "strip_token (Obj r) = Obj (filter (\<lambda>kv. fst kv \<noteq> ''accessToken'') r)"
| "strip_token v = v"

fun strip_tokens :: "jsval \<Rightarrow> jsval" where
  "strip_tokens (Obj kvs) = Obj (map (\<lambda>kv. (fst kv, strip_token (snd kv))) kvs)"
| "strip_tokens (Arr xs) = Arr (map strip_token xs)"
| "strip_tokens v = v"

text \<open>
  The masking as the specification words it: a stored access token is replaced by
  \<^verbatim>\<open>***len:N\<close>, with \<open>N\<close> the length of the token.
\<close>

fun hide_token :: "jsval \<Rightarrow> jsval" where
  "hide_token (Obj r) =
     (case own r ''accessToken'' of
        Some (Str (c # cs)) \<Rightarrow>
          Obj (replace_own ''accessToken'' (Str (''***len:'' @ digits (length (c # cs)))) r)
      | _ \<Rightarrow> Obj r)"
| "hide_token v = v"

text \<open>Every record is an object whose access token, when it has one, is a string.\<close>

definition string_tokens :: "(string \<times> jsval) list \<Rightarrow> bool" where
  "string_tokens kvs =
     list_all (\<lambda>kv. case snd kv of
                      Obj r \<Rightarrow> (case own r ''accessToken'' of
                                  None \<Rightarrow> True | Some (Str t) \<Rightarrow> True | Some v \<Rightarrow> False)
                    | v \<Rightarrow> False) kvs"

section \<open>Sample data\<close>

text \<open>Concrete configurations, disks and requests at which the theorems below are applied.\<close>

definition sample_cfg :: config where
  "sample_cfg = \<lparr>FB_APP_ID = ''app'', FB_APP_SECRET = ''secret'',
     ACCOUNTS_FILE = ''/tmp/accounts.json'', SCHEDULE_FILE = ''/tmp/scheduleData.json''\<rparr>"

definition empty_disk :: fsys where
  "empty_disk = \<lparr>files = (\<lambda>p. None), refuses = (\<lambda>p. False)\<rparr>"

text \<open>A disk where the accounts file can be neither read nor written.\<close>

definition locked_disk :: fsys where
  "locked_disk = \<lparr>files = (\<lambda>p. None)(''/tmp/accounts.json'' \<mapsto> NoRead), refuses = (\<lambda>p. True)\<rparr>"

definition one_account_disk :: fsys where
  "one_account_disk = \<lparr>files = (\<lambda>p. None)(''/tmp/accounts.json'' \<mapsto>
        Text (Encoded (Obj [(''17841400000000001'',
           Obj [(''accessToken'', Str ''OLDTOKEN''),
                (''username'', Str ''Instagram-17841400000000001''),
                (''buckets'', Arr [Str ''morning'', Str ''evening''])])]))),
     refuses = (\<lambda>p. False)\<rparr>"

definition other_token_disk :: fsys where
  "other_token_disk = \<lparr>files = (\<lambda>p. None)(''/tmp/accounts.json'' \<mapsto>
        Text (Encoded (Obj [(''17841400000000001'',
           Obj [(''accessToken'', Str ''EAAB-another-token''),
                (''username'', Str ''Instagram-17841400000000001''),
                (''buckets'', Arr [Str ''morning'', Str ''evening''])])]))),
     refuses = (\<lambda>p. False)\<rparr>"

definition sample_old_record :: jsval where
  "sample_old_record = Obj [(''accessToken'', Str ''OLDTOKEN''),
                (''username'', Str ''Instagram-17841400000000001''),
                (''buckets'', Arr [Str ''morning'', Str ''evening''])]"

definition callback_request :: request where
  "callback_request = \<lparr>x_forwarded_proto = Some ''https'', protocol = Some ''http'',
     x_forwarded_host = None, host = Some ''api.example.com'',
     query_code = Str ''AUTHCODE'', body = Undefined\<rparr>"


definition buckets_request :: "jsval \<Rightarrow> request" where
  "buckets_request b = \<lparr>x_forwarded_proto = None, protocol = Some ''http'',
     x_forwarded_host = None, host = Some ''api.example.com'',
     query_code = Undefined, body = b\<rparr>"

definition rejected :: "exn + jsval" where
  "rejected = Inl (HttpError (Obj [(''error'', Obj [(''message'', Str ''Unsupported get request'')])])
                     ''Request failed with status code 400'')"

text \<open>A provider that hands out tokens and rejects every lookup.\<close>

definition tokens_only :: http where
  "tokens_only url params =
     (if url = graph @ ''oauth/access_token'' then Inr (Obj [(''access_token'', Str ''LONGTOKEN'')])
      else rejected)"

text \<open>A provider that hands out tokens and rejects every lookup but the third.\<close>

definition third_only :: http where
  "third_only url params =
     (if url = graph @ ''oauth/access_token'' then Inr (Obj [(''access_token'', Str ''LONGTOKEN'')])
      else if (url, params) = me_accounts_request (Str ''LONGTOKEN'') then
        Inr (Obj [(''accounts'', Obj [(''data'', Arr [
               Obj [(''id'', Str ''101''), (''name'', Str ''Page''),
                    (''instagram_business_account'', Obj [(''id'', Str ''17841400000000001'')])]])])])
      else rejected)"

definition sample_page :: jsval where
  "sample_page = Obj [(''id'', Str ''101''), (''name'', Str ''Page''), (''access_token'', Str ''PAGETOKEN'')]"

text \<open>
  A provider that answers by the address alone: tokens, one page, the account linked
  to the page, and a given answer to the request for the name of the account.
\<close>

definition page_provider :: "exn + jsval \<Rightarrow> http" where
  "page_provider name_answer url params =
     (if url = graph @ ''oauth/access_token'' then Inr (Obj [(''access_token'', Str ''LONGTOKEN'')])
      else if url = graph @ ''me/accounts'' then
        Inr (Obj [(''data'', Arr [Obj [(''id'', Str ''101''), (''name'', Str ''Page''),
                                        (''access_token'', Str ''PAGETOKEN'')]])])
      else if url = graph @ ''101'' then
        Inr (Obj [(''instagram_business_account'', Obj [(''id'', Str ''17841400000000001'')]),
                  (''id'', Str ''101'')])
      else if url = graph @ ''17841400000000001'' then name_answer
      else rejected)"

definition shop_name :: "exn + jsval" where
  "shop_name = Inr (Obj [(''username'', Str ''shop''), (''id'', Str ''17841400000000001'')])"

text \<open>A provider that hands out tokens and rejects every lookup but the second.\<close>

definition second_only :: http where
  "second_only url params =
     (if url = graph @ ''oauth/access_token'' then Inr (Obj [(''access_token'', Str ''LONGTOKEN'')])
      else if (url, params) = me_ig_request (Str ''LONGTOKEN'') then
        Inr (Obj [(''instagram_business_accounts'', Obj [(''data'', Arr [
               Obj [(''id'', Str ''17841400000000002''), (''username'', Str ''studio'')]])])])
      else rejected)"

text \<open>
  A provider changed in its answers to the user-level requests of the second and the
  third path, and one changed in its answer to the request of the third path only.
\<close>

definition decoy :: "http \<Rightarrow> http" where
  "decoy get url params =
     (if (url, params) = me_ig_request (Str ''LONGTOKEN'')
         \<or> (url, params) = me_accounts_request (Str ''LONGTOKEN'')
      then Inr (Obj [(''instagram_business_accounts'', Obj [(''data'', Arr [Obj [(''id'', Str ''999'')]])]),
                     (''accounts'', Obj [(''data'', Arr [
                        Obj [(''instagram_business_account'', Obj [(''id'', Str ''999'')])]])])])
      else get url params)"

definition decoy_third :: "http \<Rightarrow> http" where
  "decoy_third get url params =
     (if (url, params) = me_accounts_request (Str ''LONGTOKEN'')
      then Inr (Obj [(''accounts'', Obj [(''data'', Arr [
                        Obj [(''instagram_business_account'', Obj [(''id'', Str ''999'')])]])])])
      else get url params)"

text \<open>A disk on which every write is refused.\<close>

definition read_only :: "fsys \<Rightarrow> fsys" where
  "read_only fs = fs\<lparr>refuses := (\<lambda>p. True)\<rparr>"


text \<open>Two bucket updates: one for the stored account, one under the name \<^verbatim>\<open>__proto__\<close>.\<close>

definition account_update :: request where
  "account_update = buckets_request (Obj [(''accountId'', Str ''17841400000000001'')])"

definition proto_update :: request where
  "proto_update =
     buckets_request (Obj [(''accountId'', Str ''__proto__''), (''buckets'', Arr [Str ''x''])])"

section \<open>The storage helpers\<close>

lemma clean_is_json:
  "is_json v \<Longrightarrow> clean v = v"
  "is_json_elems xs \<Longrightarrow> clean_elems xs = xs"
  "is_json_props kvs \<Longrightarrow> clean_props kvs = kvs"
  by (induction v and xs and kvs rule: clean_clean_elems_clean_props.induct) auto

lemma stringify_is_json: "is_json v \<Longrightarrow> stringify v = Some v"
  by (cases v) (simp_all add: stringify_def clean_is_json)

lemma empty_doc: "loadJSON empty_disk (ACCOUNTS_FILE sample_cfg) = Obj []"
  by (simp add: loadJSON_def loadJSON_try_def existsSync_def empty_disk_def)

text \<open>
  C4. \<^verbatim>\<open>loadJSON\<close> answers the empty object when the path holds nothing, cannot be
  read, or holds an empty or unparseable text; it answers the parsed value of a
  well-formed text; and whatever the \<^verbatim>\<open>try\<close> block throws, the caller gets the empty
  object and no exception.
\<close>

theorem loadJSON_default:
  "(files fs file = None \<or> files fs file = Some NoRead \<or> files fs file = Some (Text Empty)
      \<or> files fs file = Some (Text Malformed) \<longrightarrow> loadJSON fs file = Obj [])
   \<and> (files fs file = Some (Text (Encoded v)) \<longrightarrow> loadJSON fs file = v)
   \<and> (\<forall>e. loadJSON_try fs file = Inl e \<longrightarrow> loadJSON fs file = Obj [])"
  by (auto simp: loadJSON_def loadJSON_try_def existsSync_def readFileSync_def JSON_parse_def)

theorem loadJSON_default_witness:
  "loadJSON empty_disk ''/tmp/accounts.json'' = Obj []
   \<and> loadJSON (empty_disk\<lparr>files := (files empty_disk)(''/tmp/accounts.json'' \<mapsto> Text Malformed)\<rparr>)
        ''/tmp/accounts.json'' = Obj []
   \<and> loadJSON (empty_disk\<lparr>files := (files empty_disk)(''/tmp/accounts.json'' \<mapsto> Text (Encoded (Arr [Num 1])))\<rparr>)
        ''/tmp/accounts.json'' = Arr [Num 1]
   \<and> loadJSON_try locked_disk ''/tmp/accounts.json'' = Inl (JsError ''Error'' ''EACCES: permission denied'')
   \<and> loadJSON locked_disk ''/tmp/accounts.json'' = Obj []"
proof -
  have a: "files empty_disk ''/tmp/accounts.json'' = None"
    by (simp add: empty_disk_def)
  have b: "files (empty_disk\<lparr>files := (files empty_disk)(''/tmp/accounts.json'' \<mapsto> Text Malformed)\<rparr>)
             ''/tmp/accounts.json'' = Some (Text Malformed)"
    by simp
  have c: "files (empty_disk\<lparr>files := (files empty_disk)(''/tmp/accounts.json'' \<mapsto> Text (Encoded (Arr [Num 1])))\<rparr>)
             ''/tmp/accounts.json'' = Some (Text (Encoded (Arr [Num 1])))"
    by simp
  have d: "loadJSON_try locked_disk ''/tmp/accounts.json'' = Inl (JsError ''Error'' ''EACCES: permission denied'')"
    by (simp add: loadJSON_try_def existsSync_def readFileSync_def locked_disk_def)
  from a b c d
    loadJSON_default [of empty_disk "''/tmp/accounts.json''"]
    loadJSON_default [of "empty_disk\<lparr>files := (files empty_disk)(''/tmp/accounts.json'' \<mapsto> Text Malformed)\<rparr>" "''/tmp/accounts.json''"]
    loadJSON_default [of "empty_disk\<lparr>files := (files empty_disk)(''/tmp/accounts.json'' \<mapsto> Text (Encoded (Arr [Num 1])))\<rparr>" "''/tmp/accounts.json''" "Arr [Num 1]"]
    loadJSON_default [of locked_disk "''/tmp/accounts.json''"]
  show ?thesis by blast
qed



section \<open>The OAuth callback with three lookup paths\<close>

lemma scan_accounts_start:
  "scan_accounts as x = (if truthy (scan_accounts as Null) then scan_accounts as Null else x)"
  by (induction as) (auto simp: Let_def)

lemma path3_start:
  "\<not> truthy x \<Longrightarrow> path3 get tok x = (if truthy (path3 get tok Null) then path3 get tok Null else x)"
proof -
  assume f: "\<not> truthy x"
  show ?thesis
  proof (cases "get (graph @ ''me'')
      [(''fields'', Str ''accounts{id,name,instagram_business_account}''), (''access_token'', tok)]")
    case (Inl e)
    with f show ?thesis by (simp add: path3_def)
  next
    case (Inr d)
    show ?thesis
    proof (cases "iterate (js_or (opt_field (opt_field d ''accounts'') ''data'') (Arr []))")
      case (Inl e)
      with Inr f show ?thesis by (simp add: path3_def)
    next
      case (Inr accs)
      with \<open>_ = Inr d\<close> f scan_accounts_start [of accs x] show ?thesis
        by (simp add: path3_def)
    qed
  qed
qed

lemma path3_keeps: "truthy x \<Longrightarrow> path3 get tok x = x"
  by (simp add: path3_def)

lemma path2_keeps: "truthy x \<Longrightarrow> path2 get tok x = x"
  by (simp add: path2_def)

lemma scan_pages_Null: "scan_pages get tok ps Null = Null \<or> truthy (scan_pages get tok ps Null)"
  by (induction ps) (auto simp: probe_page_def Let_def split: option.splits sum.splits if_splits)

lemma path1_Null: "path1 get tok Null = Null \<or> truthy (path1 get tok Null)"
  using scan_pages_Null [of get tok] by (auto simp: path1_def split: sum.splits)

lemma probe_page_same:
  assumes "same_except get get' [me_ig_request tok, me_accounts_request tok]"
  shows "probe_page get' t p = probe_page get t p"
proof -
  have "get' (graph @ s) [(''fields'', Str ''instagram_business_account''), (''access_token'', t)]
      = get (graph @ s) [(''fields'', Str ''instagram_business_account''), (''access_token'', t)]" for s
    using assms by (simp add: same_except_def me_ig_request_def me_accounts_request_def)
  then show ?thesis
    by (simp add: probe_page_def then_do_def split: sum.splits)
qed

lemma scan_pages_same:
  assumes "same_except get get' [me_ig_request tok, me_accounts_request tok]"
  shows "scan_pages get' t ps x = scan_pages get t ps x"
  by (induction ps) (simp_all add: probe_page_same [OF assms] split: option.splits)

lemma path1_same:
  assumes "same_except get get' [me_ig_request tok, me_accounts_request tok]"
  shows "path1 get' tok x = path1 get tok x"
proof -
  have "get' (graph @ ''me/accounts'') [(''access_token'', tok)]
      = get (graph @ ''me/accounts'') [(''access_token'', tok)]"
    using assms by (simp add: same_except_def me_ig_request_def me_accounts_request_def graph_def)
  then show ?thesis
    by (simp add: path1_def scan_pages_same [OF assms] split: sum.splits)
qed

lemma path2_same:
  assumes "same_except get get' [me_accounts_request tok]"
  shows "path2 get' tok x = path2 get tok x"
proof -
  have "get' (graph @ ''me'') [(''fields'', Str ''instagram_business_accounts{id,username}''), (''access_token'', tok)]
      = get (graph @ ''me'') [(''fields'', Str ''instagram_business_accounts{id,username}''), (''access_token'', tok)]"
    using assms by (simp add: same_except_def me_accounts_request_def)
  then show ?thesis
    by (simp add: path2_def)
qed

lemma find_account_first:
  "truthy (path1 get tok Null) \<Longrightarrow> find_account get tok = path1 get tok Null"
  by (simp add: find_account_def path2_keeps path3_keeps)

lemma find_account_second:
  "\<not> truthy (path1 get tok Null) \<Longrightarrow> truthy (path2 get tok Null)
   \<Longrightarrow> find_account get tok = path2 get tok Null"
  using path1_Null [of get tok] by (auto simp: find_account_def path3_keeps)

lemma find_account_third:
  "\<not> truthy (path1 get tok Null) \<Longrightarrow> \<not> truthy (path2 get tok Null)
   \<Longrightarrow> find_account get tok =
       (if truthy (path3 get tok Null) then path3 get tok Null else path2 get tok Null)"
  using path1_Null [of get tok] path3_start [of "path2 get tok Null" get tok]
  by (auto simp: find_account_def)

lemma same_except_more:
  "same_except get get' [r] \<Longrightarrow> same_except get get' [q, r]"
  by (simp add: same_except_def)

lemma second_only_paths:
  "path1 second_only (Str ''LONGTOKEN'') Null = Null"
  "path2 second_only (Str ''LONGTOKEN'') Null = Str ''17841400000000002''"
  by (simp_all add: path1_def path2_def second_only_def rejected_def graph_def
      me_ig_request_def js_or_def opt_field_def own_def then_do_def)

lemma page_provider_path1:
  "path1 (page_provider a) (Str ''LONGTOKEN'') Null = Str ''17841400000000001''"
  by (simp add: path1_def page_provider_def graph_def probe_page_def
      then_do_def opt_field_def own_def js_or_def)

lemma decoy_same:
  "same_except get (decoy get) [me_ig_request (Str ''LONGTOKEN''), me_accounts_request (Str ''LONGTOKEN'')]"
  by (simp add: same_except_def decoy_def)

lemma decoy_third_same:
  "same_except get (decoy_third get) [me_accounts_request (Str ''LONGTOKEN'')]"
  by (simp add: same_except_def decoy_third_def)

text \<open>
  C1. The three lookup paths are tried in a fixed order and the first one that yields
  an identifier decides: when the first path (the pages of \<^verbatim>\<open>/me/accounts\<close>) and the
  second (the field \<^verbatim>\<open>instagram_business_accounts\<close>) yield none and the third (the field
  path \<^verbatim>\<open>accounts{instagram_business_account}\<close>) yields one, the resolver returns the
  identifier of the third, and the callback saves the account under it. After a path
  has succeeded the answers of the provider to the requests of the later paths have
  no influence on the result.
\<close>

theorem find_account_order:
  "(truthy (path1 get tok Null) \<longrightarrow> find_account get tok = path1 get tok Null)
   \<and> (\<not> truthy (path1 get tok Null) \<and> truthy (path2 get tok Null)
        \<longrightarrow> find_account get tok = path2 get tok Null)
   \<and> (\<not> truthy (path1 get tok Null) \<and> \<not> truthy (path2 get tok Null) \<and> truthy (path3 get tok Null)
        \<longrightarrow> find_account get tok = path3 get tok Null
          \<and> (exchange_tokens cfg get code uri = Inr tok
               \<longrightarrow> callback_paths_try cfg get fs code uri = save_account cfg fs tok (path3 get tok Null)))
   \<and> (truthy (path1 get tok Null)
        \<and> same_except get get' [me_ig_request tok, me_accounts_request tok]
        \<longrightarrow> find_account get' tok = find_account get tok)
   \<and> (\<not> truthy (path1 get tok Null) \<and> truthy (path2 get tok Null)
        \<and> same_except get get' [me_accounts_request tok]
        \<longrightarrow> find_account get' tok = find_account get tok)"
proof (intro conjI impI)
  show "find_account get tok = path1 get tok Null" if "truthy (path1 get tok Null)"
    using that by (rule find_account_first)
  show "find_account get tok = path2 get tok Null"
    if "\<not> truthy (path1 get tok Null) \<and> truthy (path2 get tok Null)"
    using that by (simp add: find_account_second)
  show third: "find_account get tok = path3 get tok Null"
    if "\<not> truthy (path1 get tok Null) \<and> \<not> truthy (path2 get tok Null) \<and> truthy (path3 get tok Null)"
    using that by (simp add: find_account_third)
  show "callback_paths_try cfg get fs code uri = save_account cfg fs tok (path3 get tok Null)"
    if "\<not> truthy (path1 get tok Null) \<and> \<not> truthy (path2 get tok Null) \<and> truthy (path3 get tok Null)"
      and "exchange_tokens cfg get code uri = Inr tok"
    using that third by (simp add: callback_paths_try_def then_do_def)
  show "find_account get' tok = find_account get tok"
    if h: "truthy (path1 get tok Null)
           \<and> same_except get get' [me_ig_request tok, me_accounts_request tok]"
  proof -
    from h have "path1 get' tok Null = path1 get tok Null" by (simp add: path1_same)
    with h show ?thesis by (simp add: find_account_first)
  qed
  show "find_account get' tok = find_account get tok"
    if h: "\<not> truthy (path1 get tok Null) \<and> truthy (path2 get tok Null)
           \<and> same_except get get' [me_accounts_request tok]"
  proof -
    from h have one: "path1 get' tok Null = path1 get tok Null"
      by (simp add: path1_same same_except_more)
    from h have two: "path2 get' tok Null = path2 get tok Null" by (simp add: path2_same)
    from h one two show ?thesis by (simp add: find_account_second)
  qed
qed

lemma third_only_paths:
  "path1 third_only (Str ''LONGTOKEN'') Null = Null"
  "path2 third_only (Str ''LONGTOKEN'') Null = Null"
  "path3 third_only (Str ''LONGTOKEN'') Null = Str ''17841400000000001''"
  by (simp_all add: path1_def path2_def path3_def third_only_def rejected_def graph_def
      me_accounts_request_def js_or_def opt_field_def own_def)

theorem find_account_order_witness:
  "\<not> truthy (path1 third_only (Str ''LONGTOKEN'') Null)
   \<and> \<not> truthy (path2 third_only (Str ''LONGTOKEN'') Null)
   \<and> truthy (path3 third_only (Str ''LONGTOKEN'') Null)
   \<and> find_account third_only (Str ''LONGTOKEN'') = Str ''17841400000000001''
   \<and> find_account second_only (Str ''LONGTOKEN'') = Str ''17841400000000002''
   \<and> find_account (decoy_third second_only) (Str ''LONGTOKEN'') = Str ''17841400000000002''
   \<and> find_account (page_provider shop_name) (Str ''LONGTOKEN'') = Str ''17841400000000001''
   \<and> find_account (decoy (page_provider shop_name)) (Str ''LONGTOKEN'') = Str ''17841400000000001''"
proof -
  let ?t = "Str ''LONGTOKEN''"
  have h3: "\<not> truthy (path1 third_only ?t Null) \<and> \<not> truthy (path2 third_only ?t Null)
     \<and> truthy (path3 third_only ?t Null)"
    by (simp add: third_only_paths)
  have h2: "\<not> truthy (path1 second_only ?t Null) \<and> truthy (path2 second_only ?t Null)
     \<and> same_except second_only (decoy_third second_only) [me_accounts_request ?t]"
    by (simp add: second_only_paths decoy_third_same)
  have h1: "truthy (path1 (page_provider shop_name) ?t Null)
     \<and> same_except (page_provider shop_name) (decoy (page_provider shop_name))
          [me_ig_request ?t, me_accounts_request ?t]"
    by (simp add: page_provider_path1 decoy_same)
  from h3 find_account_order [of third_only ?t]
  have a: "find_account third_only ?t = Str ''17841400000000001''"
    by (simp add: third_only_paths)
  from h2 find_account_order [of second_only ?t _ _ _ _ "decoy_third second_only"]
  have b: "find_account second_only ?t = Str ''17841400000000002''
      \<and> find_account (decoy_third second_only) ?t = Str ''17841400000000002''"
    by (simp add: second_only_paths)
  from h1 find_account_order [of "page_provider shop_name" ?t _ _ _ _ "decoy (page_provider shop_name)"]
  have c: "find_account (page_provider shop_name) ?t = Str ''17841400000000001''
      \<and> find_account (decoy (page_provider shop_name)) ?t = Str ''17841400000000001''"
    by (simp add: page_provider_path1)
  from h3 a b c show ?thesis by simp
qed

text \<open>
  C2. When the tokens were obtained and all three lookup paths yield no identifier,
  the callback answers with status 500 and the error page of the one message
  \<open>no_account_found\<close>, and the file system is the one it started with. More generally,
  every answer of the callback other than the confirmation leaves the file system as
  it was.
\<close>

theorem no_account_no_write:
  "(truthy (query_code req)
      \<and> exchange_tokens cfg get (query_code req) (buildBaseUrl req @ ''/auth/instagram/callback'') = Inr tok
      \<and> \<not> truthy (path1 get tok Null) \<and> \<not> truthy (path2 get tok Null)
      \<and> \<not> truthy (path3 get tok Null)
      \<longrightarrow> callback_paths cfg get fs req =
            (\<lparr>status = 500, sent = SendOAuthError (Str no_account_found)\<rparr>, fs))
   \<and> (status (fst (callback_paths cfg get fs req)) \<noteq> 200 \<longrightarrow> snd (callback_paths cfg get fs req) = fs)"
proof (intro conjI impI)
  assume h: "truthy (query_code req)
      \<and> exchange_tokens cfg get (query_code req) (buildBaseUrl req @ ''/auth/instagram/callback'') = Inr tok
      \<and> \<not> truthy (path1 get tok Null) \<and> \<not> truthy (path2 get tok Null)
      \<and> \<not> truthy (path3 get tok Null)"
  then have "\<not> truthy (find_account get tok)"
    by (simp add: find_account_third)
  with h show "callback_paths cfg get fs req =
            (\<lparr>status = 500, sent = SendOAuthError (Str no_account_found)\<rparr>, fs)"
    by (simp add: callback_paths_def callback_paths_try_def then_do_def oauth_error_def detail_def)
next
  assume "status (fst (callback_paths cfg get fs req)) \<noteq> 200"
  then show "snd (callback_paths cfg get fs req) = fs"
    by (auto simp: callback_paths_def Let_def split: if_splits sum.splits)
qed

lemma tokens_only_exchange:
  "exchange_tokens sample_cfg tokens_only (Str ''AUTHCODE'') uri = Inr (Str ''LONGTOKEN'')"
  by (simp add: exchange_tokens_def then_do_def tokens_only_def own_def)

lemma tokens_only_paths:
  "path1 tokens_only (Str ''LONGTOKEN'') Null = Null"
  "path2 tokens_only (Str ''LONGTOKEN'') Null = Null"
  "path3 tokens_only (Str ''LONGTOKEN'') Null = Null"
  by (simp_all add: path1_def path2_def path3_def tokens_only_def rejected_def graph_def)

theorem no_account_no_write_witness:
  "truthy (query_code callback_request)
   \<and> exchange_tokens sample_cfg tokens_only (query_code callback_request)
        (buildBaseUrl callback_request @ ''/auth/instagram/callback'') = Inr (Str ''LONGTOKEN'')
   \<and> \<not> truthy (path1 tokens_only (Str ''LONGTOKEN'') Null)
   \<and> \<not> truthy (path2 tokens_only (Str ''LONGTOKEN'') Null)
   \<and> \<not> truthy (path3 tokens_only (Str ''LONGTOKEN'') Null)
   \<and> callback_paths sample_cfg tokens_only one_account_disk callback_request =
        (\<lparr>status = 500, sent = SendOAuthError (Str no_account_found)\<rparr>, one_account_disk)"
proof -
  have h: "truthy (query_code callback_request)
   \<and> exchange_tokens sample_cfg tokens_only (query_code callback_request)
        (buildBaseUrl callback_request @ ''/auth/instagram/callback'') = Inr (Str ''LONGTOKEN'')
   \<and> \<not> truthy (path1 tokens_only (Str ''LONGTOKEN'') Null)
   \<and> \<not> truthy (path2 tokens_only (Str ''LONGTOKEN'') Null)
   \<and> \<not> truthy (path3 tokens_only (Str ''LONGTOKEN'') Null)"
    by (simp add: callback_request_def tokens_only_exchange tokens_only_paths)
  from h no_account_no_write [of callback_request sample_cfg tokens_only "Str ''LONGTOKEN''" one_account_disk]
  show ?thesis by blast
qed

section \<open>Schedule and buckets\<close>

lemma load_after_save:
  "is_json d \<Longrightarrow> \<not> refuses fs f \<Longrightarrow> loadJSON (saveJSON fs f d) f = d"
  by (simp add: saveJSON_def stringify_is_json loadJSON_def loadJSON_try_def existsSync_def
      readFileSync_def JSON_parse_def)

lemma refuses_saveJSON: "refuses (saveJSON fs f d) = refuses fs"
  by (simp add: saveJSON_def split: option.splits)

lemma read_only_loaded: "loadJSON (read_only fs) f = loadJSON fs f"
  by (simp add: read_only_def loadJSON_def loadJSON_try_def existsSync_def readFileSync_def)

lemma read_only_saveJSON: "saveJSON (read_only fs) f d = read_only fs"
  by (simp add: read_only_def saveJSON_def)




text \<open>
  An \<^verbatim>\<open>accountId\<close> that is neither a key of the stored object nor a name found on
  \<^verbatim>\<open>Object.prototype\<close> is rejected, and nothing is saved.
\<close>

lemma unknown_account_rejected:
  assumes "loadJSON fs (ACCOUNTS_FILE cfg) = Obj kvs"
    and "to_string (opt_field (js_or (body req) (Obj [])) ''accountId'') = Inr k"
    and "own kvs k = None"
    and "k \<notin> set object_prototype_names"
    and "k \<noteq> ''buckets'' \<or> rt = None"
  shows "post_buckets cfg rt fs req = (\<lparr>status = 400, sent = Send ''Account not found''\<rparr>, rt, fs)"
  using assms
  by (auto simp: post_buckets_def Let_def get_member_def nullish_def inherited_def
      object_prototype_names_def)

lemma started_doc: "loadJSON (ensure_files sample_cfg empty_disk) (ACCOUNTS_FILE sample_cfg) = Obj []"
  by (simp add: ensure_files_def existsSync_def empty_disk_def sample_cfg_def saveJSON_def
      stringify_def loadJSON_def loadJSON_try_def readFileSync_def JSON_parse_def)

text \<open>
  C6. The route means to reject an \<^verbatim>\<open>accountId\<close> that is no key of the stored document,
  with status 400 and without a save. Its test \<^verbatim>\<open>!accounts[accountId]\<close> also sees the
  members that every object inherits. After startup on an empty disk the stored
  document is the empty object, of which \<^verbatim>\<open>constructor\<close> is no key; the request for the
  account \<^verbatim>\<open>constructor\<close> is answered with status 200 and \<^verbatim>\<open>{status: 'ok'}\<close>. The save
  runs as well: on a disk without an accounts file, the file exists afterwards. The
  runtime is the one the process starts with.
\<close>

theorem inherited_name_accepted:
  "own [] ''constructor'' = None
   \<and> loadJSON (ensure_files sample_cfg empty_disk) (ACCOUNTS_FILE sample_cfg) = Obj []
   \<and> fst (post_buckets sample_cfg None (ensure_files sample_cfg empty_disk)
        (buckets_request (Obj [(''accountId'', Str ''constructor''), (''buckets'', Arr [Str ''x''])])))
      = \<lparr>status = 200, sent = SendJson (Obj [(''status'', Str ''ok'')])\<rparr>
   \<and> files empty_disk (ACCOUNTS_FILE sample_cfg) = None
   \<and> files (snd (snd (post_buckets sample_cfg None empty_disk
        (buckets_request (Obj [(''accountId'', Str ''constructor''), (''buckets'', Arr [Str ''x''])])))))
        (ACCOUNTS_FILE sample_cfg) = Some (Text (Encoded (Obj [])))"
proof -
  have no_key: "own [] ''constructor'' = None" by (simp add: own_def)
  have absent: "files empty_disk (ACCOUNTS_FILE sample_cfg) = None" by (simp add: empty_disk_def)
  have answer: "fst (post_buckets sample_cfg None (ensure_files sample_cfg empty_disk)
        (buckets_request (Obj [(''accountId'', Str ''constructor''), (''buckets'', Arr [Str ''x''])])))
      = \<lparr>status = 200, sent = SendJson (Obj [(''status'', Str ''ok'')])\<rparr>"
    by (simp add: post_buckets_def started_doc buckets_request_def js_or_def opt_field_def own_def
        get_member_def nullish_def inherited_def object_prototype_names_def res_json_def
        status_ok_def read_buckets_def or_empty_def)
  have saved: "files (snd (snd (post_buckets sample_cfg None empty_disk
        (buckets_request (Obj [(''accountId'', Str ''constructor''), (''buckets'', Arr [Str ''x''])])))))
        (ACCOUNTS_FILE sample_cfg) = Some (Text (Encoded (Obj [])))"
    by (simp add: post_buckets_def empty_doc buckets_request_def js_or_def opt_field_def own_def
        get_member_def nullish_def inherited_def object_prototype_names_def read_buckets_def
        or_empty_def)
      (simp add: saveJSON_def stringify_def empty_disk_def)
  from no_key started_doc answer absent saved show ?thesis by blast
qed

lemma own_replace_own_other: "k' \<noteq> k \<Longrightarrow> own (replace_own k v kvs) k' = own kvs k'"
  by (induction kvs) (auto simp: own_def)

lemma own_replace_own_same:
  "own (replace_own k v kvs) k = (case own kvs k of None \<Rightarrow> None | Some u \<Rightarrow> Some v)"
  by (induction k v kvs rule: replace_own.induct) (simp_all add: own_def)

lemma own_None_iff: "own kvs k = None \<longleftrightarrow> k \<notin> set (map fst kvs)"
  by (simp add: own_def map_of_eq_None_iff)

lemma own_replace_own:
  "own (replace_own k v kvs) k' = (if k' = k \<and> k \<in> set (map fst kvs) then Some v else own kvs k')"
proof (cases "k' = k")
  case True
  show ?thesis
  proof (cases "own kvs k")
    case None
    with True own_None_iff [of kvs k] show ?thesis by (simp add: own_replace_own_same)
  next
    case (Some u)
    with True own_None_iff [of kvs k] show ?thesis by (simp add: own_replace_own_same)
  qed
next
  case False
  then show ?thesis by (simp add: own_replace_own_other)
qed

lemma keys_replace_own: "map fst (replace_own k v kvs) = map fst kvs"
  by (induction kvs) auto

lemma own_insert_index:
  "own (insert_index k v kvs) k' = (if k' = k then Some v else own kvs k')"
  by (induction kvs) (auto simp: own_def)

lemma own_append_new:
  "k \<notin> set (map fst kvs) \<Longrightarrow> own (kvs @ [(k, v)]) k' = (if k' = k then Some v else own kvs k')"
proof -
  assume "k \<notin> set (map fst kvs)"
  then have "map_of kvs k = None" by (simp add: map_of_eq_None_iff)
  then show ?thesis
    by (cases "map_of kvs k'") (auto simp: own_def map_add_def)
qed

lemma own_obj_set:
  "k \<noteq> ''__proto__'' \<or> k \<in> set (map fst kvs)
   \<Longrightarrow> own (obj_set kvs k v) k' = (if k' = k then Some v else own kvs k')"
  by (auto simp: obj_set_def own_replace_own own_insert_index own_append_new)

lemma own_in_keys: "own kvs k = Some v \<Longrightarrow> k \<in> set (map fst kvs)"
  using own_None_iff [of kvs k] by simp

lemma is_json_props_iff: "is_json_props kvs = (\<forall>v \<in> snd ` set kvs. is_json v)"
  by (induction kvs) auto

lemma is_json_own: "is_json_props kvs \<Longrightarrow> own kvs k = Some v \<Longrightarrow> is_json v"
  unfolding own_def is_json_props_iff by (auto dest!: map_of_SomeD)

lemma is_json_replace_own:
  "is_json_props kvs \<Longrightarrow> is_json v \<Longrightarrow> is_json_props (replace_own k v kvs)"
  by (induction kvs) auto

lemma is_json_insert_index:
  "is_json_props kvs \<Longrightarrow> is_json v \<Longrightarrow> is_json_props (insert_index k v kvs)"
  by (induction kvs) auto

lemma is_json_append:
  "is_json_props kvs \<Longrightarrow> is_json v \<Longrightarrow> is_json_props (kvs @ [(k, v)])"
  by (induction kvs) auto

lemma is_json_obj_set:
  "is_json_props kvs \<Longrightarrow> is_json v \<Longrightarrow> is_json_props (obj_set kvs k v)"
  by (simp add: obj_set_def is_json_replace_own is_json_insert_index is_json_append)

lemma read_buckets_start: "read_buckets None b = Fresh (opt_field b ''buckets'')"
  by (cases b) (simp_all add: read_buckets_def opt_field_def split: option.splits)

text \<open>
  C10, as amended. A bucket update whose \<^verbatim>\<open>accountId\<close> names a stored record and whose
  \<^verbatim>\<open>buckets\<close>, as the handler reads it, is a falsy value of the request is answered with
  \<^verbatim>\<open>{status: 'ok'}\<close>; afterwards the record has the empty list under \<^verbatim>\<open>buckets\<close> and every
  other field as before, every other record is as before, the order of the records is
  the same, and the runtime is as before. The value read is one of the request when
  the body has \<^verbatim>\<open>null\<close>, \<^verbatim>\<open>false\<close>, \<open>0\<close> or the empty string under \<^verbatim>\<open>buckets\<close>, or when the body
  has no such field and \<^verbatim>\<open>Object.prototype\<close> holds none either. The body is an object, or
  falsy and so read as the empty object. The stored document is an object of the JSON
  data model, the record is an object, and the write of the file succeeds.
\<close>

theorem buckets_cleared:
  assumes h_doc: "loadJSON fs (ACCOUNTS_FILE cfg) = Obj kvs"
    and h_json: "is_json (Obj kvs)"
    and h_body: "js_or (body req) (Obj []) = Obj b"
    and h_key: "to_string (opt_field (js_or (body req) (Obj [])) ''accountId'') = Inr k"
    and h_rec: "own kvs k = Some (Obj r)"
    and h_read: "read_buckets rt (js_or (body req) (Obj [])) = Fresh v"
    and h_falsy: "\<not> truthy v"
    and h_write: "\<not> refuses fs (ACCOUNTS_FILE cfg)"
  shows "fst (post_buckets cfg rt fs req) = \<lparr>status = 200, sent = SendJson (Obj [(''status'', Str ''ok'')])\<rparr>
    \<and> fst (snd (post_buckets cfg rt fs req)) = rt
    \<and> loadJSON (snd (snd (post_buckets cfg rt fs req))) (ACCOUNTS_FILE cfg)
        = Obj (replace_own k (Obj (obj_set r ''buckets'' (Arr []))) kvs)
    \<and> own (replace_own k (Obj (obj_set r ''buckets'' (Arr []))) kvs) k
        = Some (Obj (obj_set r ''buckets'' (Arr [])))
    \<and> own (obj_set r ''buckets'' (Arr [])) ''buckets'' = Some (Arr [])
    \<and> (\<forall>f. f \<noteq> ''buckets'' \<longrightarrow> own (obj_set r ''buckets'' (Arr [])) f = own r f)
    \<and> (\<forall>k'. k' \<noteq> k \<longrightarrow> own (replace_own k (Obj (obj_set r ''buckets'' (Arr []))) kvs) k' = own kvs k')
    \<and> map fst (replace_own k (Obj (obj_set r ''buckets'' (Arr []))) kvs) = map fst kvs"
proof -
  let ?r' = "obj_set r ''buckets'' (Arr [])"
  let ?kvs' = "replace_own k (Obj ?r') kvs"
  have m: "get_member rt (loadJSON fs (ACCOUNTS_FILE cfg)) (opt_field (js_or (body req) (Obj [])) ''accountId'')
      = Inr (Own (Obj r))"
    using h_doc h_key h_rec by (simp add: get_member_def nullish_def)
  have e: "or_empty rt (read_buckets rt (js_or (body req) (Obj []))) = Fresh (Arr [])"
    using h_read h_falsy by (simp add: or_empty_def js_or_def)
  have w: "write_buckets rt (Obj kvs) k (Fresh (Arr [])) = (Some (Obj ?kvs'), rt)"
    using h_rec by (simp add: as_tree_def)
  have post: "post_buckets cfg rt fs req
      = (res_json 200 status_ok, rt, saveJSON fs (ACCOUNTS_FILE cfg) (Obj ?kvs'))"
    using m e w h_doc h_key by (simp add: post_buckets_def Let_def)
  have jr: "is_json (Obj r)" using h_json h_rec by (auto dest: is_json_own)
  then have "is_json (Obj ?r')" by (simp add: is_json_obj_set)
  with h_json have j': "is_json (Obj ?kvs')" by (simp add: is_json_replace_own)
  have load: "loadJSON (saveJSON fs (ACCOUNTS_FILE cfg) (Obj ?kvs')) (ACCOUNTS_FILE cfg) = Obj ?kvs'"
    by (rule load_after_save [OF j' h_write])
  have k_in: "k \<in> set (map fst kvs)" using h_rec by (rule own_in_keys)
  show ?thesis
    using post load k_in
    by (simp add: res_json_def status_ok_def own_replace_own keys_replace_own own_obj_set)
qed

lemma one_account_loaded:
  "loadJSON one_account_disk (ACCOUNTS_FILE sample_cfg) =
     Obj [(''17841400000000001'',
           Obj [(''accessToken'', Str ''OLDTOKEN''),
                (''username'', Str ''Instagram-17841400000000001''),
                (''buckets'', Arr [Str ''morning'', Str ''evening''])])]"
  by (simp add: loadJSON_def loadJSON_try_def existsSync_def readFileSync_def JSON_parse_def
      one_account_disk_def sample_cfg_def)

theorem buckets_cleared_witness:
  "fst (post_buckets sample_cfg None one_account_disk account_update)
      = \<lparr>status = 200, sent = SendJson (Obj [(''status'', Str ''ok'')])\<rparr>
   \<and> loadJSON (snd (snd (post_buckets sample_cfg None one_account_disk account_update)))
        (ACCOUNTS_FILE sample_cfg)
      = Obj [(''17841400000000001'',
           Obj [(''accessToken'', Str ''OLDTOKEN''),
                (''username'', Str ''Instagram-17841400000000001''),
                (''buckets'', Arr [])])]
   \<and> loadJSON (snd (snd (post_buckets sample_cfg (Some (Plain (Arr [Str ''x'']))) one_account_disk
         (buckets_request (Obj [(''accountId'', Str ''17841400000000001''), (''buckets'', Null)])))))
        (ACCOUNTS_FILE sample_cfg)
      = Obj [(''17841400000000001'',
           Obj [(''accessToken'', Str ''OLDTOKEN''),
                (''username'', Str ''Instagram-17841400000000001''),
                (''buckets'', Arr [])])]"
proof -
  let ?kvs = "[(''17841400000000001'',
           Obj [(''accessToken'', Str ''OLDTOKEN''),
                (''username'', Str ''Instagram-17841400000000001''),
                (''buckets'', Arr [Str ''morning'', Str ''evening''])])]"
  let ?r = "[(''accessToken'', Str ''OLDTOKEN''),
                (''username'', Str ''Instagram-17841400000000001''),
                (''buckets'', Arr [Str ''morning'', Str ''evening''])]"
  let ?req = "buckets_request (Obj [(''accountId'', Str ''17841400000000001''), (''buckets'', Null)])"
  have h_doc: "loadJSON one_account_disk (ACCOUNTS_FILE sample_cfg) = Obj ?kvs"
    by (rule one_account_loaded)
  have h_json: "is_json (Obj ?kvs)" by simp
  have h_body: "js_or (body account_update) (Obj []) = Obj [(''accountId'', Str ''17841400000000001'')]"
    by (simp add: account_update_def buckets_request_def js_or_def)
  have h_body': "js_or (body ?req) (Obj [])
      = Obj [(''accountId'', Str ''17841400000000001''), (''buckets'', Null)]"
    by (simp add: buckets_request_def js_or_def)
  have h_key: "to_string (opt_field (js_or (body account_update) (Obj [])) ''accountId'')
      = Inr ''17841400000000001''"
    by (simp add: account_update_def buckets_request_def js_or_def opt_field_def own_def)
  have h_key': "to_string (opt_field (js_or (body ?req) (Obj [])) ''accountId'')
      = Inr ''17841400000000001''"
    by (simp add: buckets_request_def js_or_def opt_field_def own_def)
  have h_rec: "own ?kvs ''17841400000000001'' = Some (Obj ?r)" by (simp add: own_def)
  have h_read: "read_buckets None (js_or (body account_update) (Obj [])) = Fresh Undefined"
    by (simp add: read_buckets_def account_update_def buckets_request_def js_or_def own_def)
  have h_read': "read_buckets (Some (Plain (Arr [Str ''x'']))) (js_or (body ?req) (Obj [])) = Fresh Null"
    by (simp add: read_buckets_def buckets_request_def js_or_def own_def)
  have h_write: "\<not> refuses one_account_disk (ACCOUNTS_FILE sample_cfg)"
    by (simp add: one_account_disk_def)
  from buckets_cleared [OF h_doc h_json h_body h_key h_rec h_read _ h_write]
    buckets_cleared [OF h_doc h_json h_body' h_key' h_rec h_read' _ h_write]
  show ?thesis by (simp add: obj_set_def)
qed

lemma proto_update_result:
  "post_buckets sample_cfg None one_account_disk proto_update
     = (res_json 200 status_ok, Some (Plain (Arr [Str ''x''])),
        saveJSON one_account_disk (ACCOUNTS_FILE sample_cfg)
          (Obj [(''17841400000000001'',
             Obj [(''accessToken'', Str ''OLDTOKEN''),
                  (''username'', Str ''Instagram-17841400000000001''),
                  (''buckets'', Arr [Str ''morning'', Str ''evening''])])]))"
  by (simp add: post_buckets_def one_account_loaded proto_update_def buckets_request_def js_or_def
      opt_field_def own_def get_member_def nullish_def inherited_def read_buckets_def or_empty_def)

text \<open>
  C10, as stated, fails in two ways. On a disk that refuses the write the update for
  the stored account is answered with \<^verbatim>\<open>{status: 'ok'}\<close> and the record keeps its buckets.
  And after the update under the name \<^verbatim>\<open>__proto__\<close>, which is accepted and puts its list
  onto \<^verbatim>\<open>Object.prototype\<close>, the update for the stored account without a \<^verbatim>\<open>buckets\<close> field
  stores that list and not the empty one.
\<close>

theorem buckets_cleared_counterexample:
  "fst (post_buckets sample_cfg None (read_only one_account_disk) account_update)
      = \<lparr>status = 200, sent = SendJson (Obj [(''status'', Str ''ok'')])\<rparr>
   \<and> loadJSON (snd (snd (post_buckets sample_cfg None (read_only one_account_disk) account_update)))
        (ACCOUNTS_FILE sample_cfg)
      = Obj [(''17841400000000001'',
           Obj [(''accessToken'', Str ''OLDTOKEN''),
                (''username'', Str ''Instagram-17841400000000001''),
                (''buckets'', Arr [Str ''morning'', Str ''evening''])])]
   \<and> fst (post_buckets sample_cfg None one_account_disk proto_update)
      = \<lparr>status = 200, sent = SendJson (Obj [(''status'', Str ''ok'')])\<rparr>
   \<and> fst (snd (post_buckets sample_cfg None one_account_disk proto_update))
      = Some (Plain (Arr [Str ''x'']))
   \<and> loadJSON (snd (snd (post_buckets sample_cfg
          (fst (snd (post_buckets sample_cfg None one_account_disk proto_update)))
          (snd (snd (post_buckets sample_cfg None one_account_disk proto_update)))
          account_update)))
        (ACCOUNTS_FILE sample_cfg)
      = Obj [(''17841400000000001'',
           Obj [(''accessToken'', Str ''OLDTOKEN''),
                (''username'', Str ''Instagram-17841400000000001''),
                (''buckets'', Arr [Str ''x''])])]"
proof -
  let ?doc = "Obj [(''17841400000000001'',
           Obj [(''accessToken'', Str ''OLDTOKEN''),
                (''username'', Str ''Instagram-17841400000000001''),
                (''buckets'', Arr [Str ''morning'', Str ''evening''])])]"
  have refused: "post_buckets sample_cfg None (read_only one_account_disk) account_update
      = (res_json 200 status_ok, None, read_only one_account_disk)"
    by (simp add: post_buckets_def read_only_loaded one_account_loaded account_update_def
        buckets_request_def js_or_def opt_field_def own_def get_member_def nullish_def
        read_buckets_def or_empty_def as_tree_def read_only_saveJSON)
  have writable: "\<not> refuses one_account_disk (ACCOUNTS_FILE sample_cfg)"
    by (simp add: one_account_disk_def)
  have again: "loadJSON (saveJSON one_account_disk (ACCOUNTS_FILE sample_cfg) ?doc)
      (ACCOUNTS_FILE sample_cfg) = ?doc"
    by (rule load_after_save [OF _ writable]) simp
  have writable': "\<not> refuses (saveJSON one_account_disk (ACCOUNTS_FILE sample_cfg) ?doc)
      (ACCOUNTS_FILE sample_cfg)"
    using writable by (simp add: refuses_saveJSON)
  have second: "snd (snd (post_buckets sample_cfg (Some (Plain (Arr [Str ''x''])))
        (saveJSON one_account_disk (ACCOUNTS_FILE sample_cfg) ?doc) account_update))
      = saveJSON (saveJSON one_account_disk (ACCOUNTS_FILE sample_cfg) ?doc) (ACCOUNTS_FILE sample_cfg)
          (Obj [(''17841400000000001'',
           Obj [(''accessToken'', Str ''OLDTOKEN''),
                (''username'', Str ''Instagram-17841400000000001''),
                (''buckets'', Arr [Str ''x''])])])"
    by (simp add: post_buckets_def again account_update_def buckets_request_def js_or_def
        opt_field_def own_def get_member_def nullish_def read_buckets_def or_empty_def
        as_tree_def obj_set_def)
  have stored: "loadJSON (snd (snd (post_buckets sample_cfg (Some (Plain (Arr [Str ''x''])))
        (saveJSON one_account_disk (ACCOUNTS_FILE sample_cfg) ?doc) account_update)))
        (ACCOUNTS_FILE sample_cfg)
      = Obj [(''17841400000000001'',
           Obj [(''accessToken'', Str ''OLDTOKEN''),
                (''username'', Str ''Instagram-17841400000000001''),
                (''buckets'', Arr [Str ''x''])])]"
    unfolding second by (rule load_after_save [OF _ writable']) simp
  from refused stored show ?thesis
    by (simp add: proto_update_result read_only_loaded one_account_loaded res_json_def
        status_ok_def)
qed

section \<open>Access tokens in the responses\<close>

lemma own_filter_other:
  "k \<noteq> a \<Longrightarrow> own (filter (\<lambda>kv. fst kv \<noteq> a) r) k = own r k"
  by (induction r) (auto simp: own_def)

lemma get_field_strip:
  "k \<noteq> ''accessToken'' \<Longrightarrow> get_field (strip_token v) k = get_field v k"
  by (cases v) (simp_all add: own_filter_other)

lemma opt_field_strip:
  "k \<noteq> ''accessToken'' \<Longrightarrow> opt_field (strip_token v) k = opt_field v k"
  by (simp add: opt_field_def get_field_strip)

lemma list_entries_strip:
  "list_entries (map (\<lambda>kv. (fst kv, strip_token (snd kv))) es) = list_entries es"
  by (induction es rule: list_entries.induct) (simp_all add: get_field_strip split: sum.splits)

lemma list_entries_page_strip:
  "list_entries_page (map (\<lambda>kv. (fst kv, strip_token (snd kv))) es) = list_entries_page es"
  by (induction es rule: list_entries_page.induct)
    (simp_all add: get_field_strip opt_field_strip split: sum.splits)

lemma zip_strip:
  "zip ks (map strip_token xs) = map (\<lambda>kv. (fst kv, strip_token (snd kv))) (zip ks xs)"
  by (simp add: zip_map2 case_prod_beta)

lemma entries_strip:
  "entries (strip_tokens d) =
     (case entries d of Inl e \<Rightarrow> Inl e
      | Inr es \<Rightarrow> Inr (map (\<lambda>kv. (fst kv, strip_token (snd kv))) es))"
proof (cases d)
  case (Str s)
  have same: "map (\<lambda>kv. (fst kv, strip_token (snd kv))) (zip ks (map (\<lambda>c. Str [c]) s))
      = zip ks (map (\<lambda>c. Str [c]) s)" for ks
    by (simp add: zip_strip [symmetric] comp_def)
  show ?thesis
    unfolding Str by (simp only: strip_tokens.simps entries.simps sum.case same)
qed (simp_all add: zip_strip)

lemma listing_strip:
  "(case entries (strip_tokens d) of Inl e \<Rightarrow> A e | Inr es \<Rightarrow> B (list_entries es))
     = (case entries d of Inl e \<Rightarrow> A e | Inr es \<Rightarrow> B (list_entries es))"
  by (simp add: entries_strip list_entries_strip split: sum.splits)

lemma listing_page_strip:
  "(case entries (strip_tokens d) of Inl e \<Rightarrow> A e | Inr es \<Rightarrow> B (list_entries_page es))
     = (case entries d of Inl e \<Rightarrow> A e | Inr es \<Rightarrow> B (list_entries_page es))"
  by (simp add: entries_strip list_entries_page_strip split: sum.splits)

lemma get_accounts_strip:
  assumes "strip_tokens (loadJSON fs1 (ACCOUNTS_FILE cfg)) = strip_tokens (loadJSON fs2 (ACCOUNTS_FILE cfg))"
  shows "get_accounts cfg fs1 = get_accounts cfg fs2"
proof -
  let ?A = "\<lambda>e. \<lparr>status = 500, sent = Uncaught e\<rparr>"
  let ?B = "\<lambda>r. case r of Inl e \<Rightarrow> \<lparr>status = 500, sent = Uncaught e\<rparr> | Inr l \<Rightarrow> res_json 200 (Arr l)"
  have "get_accounts cfg fs = (case entries (strip_tokens (loadJSON fs (ACCOUNTS_FILE cfg))) of
      Inl e \<Rightarrow> ?A e | Inr es \<Rightarrow> ?B (list_entries es))" for fs
    unfolding listing_strip by (simp add: get_accounts_def)
  with assms show ?thesis by simp
qed

lemma get_accounts_page_strip:
  assumes "strip_tokens (loadJSON fs1 (ACCOUNTS_FILE cfg)) = strip_tokens (loadJSON fs2 (ACCOUNTS_FILE cfg))"
  shows "get_accounts_page cfg fs1 = get_accounts_page cfg fs2"
proof -
  let ?A = "\<lambda>e. \<lparr>status = 500, sent = Uncaught e\<rparr>"
  let ?B = "\<lambda>r. case r of Inl e \<Rightarrow> \<lparr>status = 500, sent = Uncaught e\<rparr> | Inr l \<Rightarrow> res_json 200 (Arr l)"
  have "get_accounts_page cfg fs = (case entries (strip_tokens (loadJSON fs (ACCOUNTS_FILE cfg))) of
      Inl e \<Rightarrow> ?A e | Inr es \<Rightarrow> ?B (list_entries_page es))" for fs
    unfolding listing_page_strip by (simp add: get_accounts_page_def)
  with assms show ?thesis by simp
qed


lemma mask_length_Str: "mask_length (Str t) = Inr (''***len:'' @ digits (length t))"
  by (simp add: mask_length_def show_int_def)

lemma mask_string_length_Str: "mask_string_length (Str t) = Inr (''***len:'' @ digits (length t))"
  by (simp add: mask_string_length_def)

lemma mask_record_hide:
  assumes "\<And>t. mk (Str t) = Inr (''***len:'' @ digits (length t))"
    and "string_tokens [(k, r)]"
  shows "mask_record mk r = Inr (hide_token r)"
proof -
  from assms(2) obtain f where r: "r = Obj f"
    by (cases r) (simp_all add: string_tokens_def)
  show ?thesis
  proof (cases "own f ''accessToken''")
    case None
    with r show ?thesis by (simp add: mask_record_def)
  next
    case (Some v)
    with assms(2) r obtain t where v: "v = Str t"
      by (cases v) (simp_all add: string_tokens_def)
    show ?thesis
    proof (cases t)
      case Nil
      with r Some v show ?thesis by (simp add: mask_record_def)
    next
      case (Cons c cs)
      from Some have "''accessToken'' \<in> set (map fst f)" by (rule own_in_keys)
      with r Some v Cons assms(1) [of t] show ?thesis
        by (simp add: mask_record_def obj_set_def)
    qed
  qed
qed

lemma string_tokens_hide: "string_tokens [(k, r)] \<Longrightarrow> string_tokens [(k, hide_token r)]"
  by (cases r) (auto simp: string_tokens_def own_replace_own split: option.splits jsval.splits list.splits)

lemma replace_own_distinct:
  "distinct (map fst kvs) \<Longrightarrow> own kvs k = Some r
   \<Longrightarrow> replace_own k v kvs = map (\<lambda>kv. if fst kv = k then (k, v) else kv) kvs"
proof (induction k v kvs rule: replace_own.induct)
  case (1 k v)
  then show ?case by (simp add: own_def)
next
  case (2 k v k' v' r')
  show ?case
  proof (cases "k' = k")
    case True
    with 2(2) have "k \<notin> fst ` set r'" by simp
    then have "map (\<lambda>kv. if fst kv = k then (k, v) else kv) r' = r'"
      by (induction r') auto
    with True show ?thesis by simp
  next
    case False
    with 2 show ?thesis by (simp add: own_def)
  qed
qed


lemma string_tokens_iff: "string_tokens kvs = (\<forall>kv \<in> set kvs. string_tokens [kv])"
  by (simp add: string_tokens_def list_all_iff)

lemma own_distinct_mem:
  "distinct (map fst kvs) \<Longrightarrow> own kvs k = Some r \<Longrightarrow> kv \<in> set kvs \<Longrightarrow> fst kv = k \<Longrightarrow> snd kv = r"
proof -
  assume d: "distinct (map fst kvs)" and o: "own kvs k = Some r" and m: "kv \<in> set kvs"
    and f: "fst kv = k"
  from m f have "(k, snd kv) \<in> set kvs" by (cases kv) auto
  with d have "map_of kvs k = Some (snd kv)" by simp
  with o show ?thesis by (simp add: own_def)
qed

lemma mask_keys_hide:
  assumes mk: "\<And>t. mk (Str t) = Inr (''***len:'' @ digits (length t))"
  shows "distinct ks \<Longrightarrow> set ks \<subseteq> set (map fst kvs) \<Longrightarrow> distinct (map fst kvs)
    \<Longrightarrow> string_tokens kvs
    \<Longrightarrow> mask_keys mk ks kvs =
          Inr (map (\<lambda>kv. if fst kv \<in> set ks then (fst kv, hide_token (snd kv)) else kv) kvs)"
proof (induction ks arbitrary: kvs)
  case Nil
  then show ?case by simp
next
  case (Cons k ks)
  from Cons.prems(2) have "own kvs k \<noteq> None" by (simp add: own_None_iff)
  then obtain r where r: "own kvs k = Some r" by auto
  then have mem: "(k, r) \<in> set kvs" by (simp add: own_def map_of_SomeD)
  with Cons.prems(4) have st: "string_tokens [(k, r)]"
    using string_tokens_iff [of kvs] by blast
  have rec: "mask_record mk r = Inr (hide_token r)"
    using mk st by (rule mask_record_hide)
  let ?kvs1 = "map (\<lambda>kv. if fst kv = k then (fst kv, hide_token (snd kv)) else kv) kvs"
  have "replace_own k (hide_token r) kvs = map (\<lambda>kv. if fst kv = k then (k, hide_token r) else kv) kvs"
    using Cons.prems(3) r by (rule replace_own_distinct)
  also have "\<dots> = ?kvs1"
    using own_distinct_mem [OF Cons.prems(3) r] by (auto intro!: map_cong)
  finally have rep: "replace_own k (hide_token r) kvs = ?kvs1" .
  have keys1: "map fst ?kvs1 = map fst kvs" by (induction kvs) auto
  have st1: "string_tokens ?kvs1"
    using Cons.prems(4) string_tokens_hide
    by (auto simp: string_tokens_iff [of kvs] string_tokens_iff [of ?kvs1])
  have "mask_keys mk ks ?kvs1 =
      Inr (map (\<lambda>kv. if fst kv \<in> set ks then (fst kv, hide_token (snd kv)) else kv) ?kvs1)"
    using Cons.prems by (intro Cons.IH) (simp_all add: keys1 st1 del: map_map)
  also have "map (\<lambda>kv. if fst kv \<in> set ks then (fst kv, hide_token (snd kv)) else kv) ?kvs1
      = map (\<lambda>kv. if fst kv \<in> set (k # ks) then (fst kv, hide_token (snd kv)) else kv) kvs"
    using Cons.prems(1) by auto
  finally show ?case using r rec rep by simp
qed

lemma mask_tokens_hide:
  assumes "\<And>t. mk (Str t) = Inr (''***len:'' @ digits (length t))"
    and "distinct (map fst kvs)" and "string_tokens kvs"
  shows "mask_tokens mk (Obj kvs) = Inr (Obj (map (\<lambda>kv. (fst kv, hide_token (snd kv))) kvs))"
proof -
  have "mask_keys mk (map fst kvs) kvs =
      Inr (map (\<lambda>kv. if fst kv \<in> set (map fst kvs) then (fst kv, hide_token (snd kv)) else kv) kvs)"
    using assms by (intro mask_keys_hide) simp_all
  moreover have "map (\<lambda>kv. if fst kv \<in> set (map fst kvs) then (fst kv, hide_token (snd kv)) else kv) kvs
      = map (\<lambda>kv. (fst kv, hide_token (snd kv))) kvs"
    by (auto intro!: map_cong)
  ultimately show ?thesis by simp
qed


text \<open>
  C8. The account listing is the same for any two stored documents that differ only
  in access tokens, in the version of \<^verbatim>\<open>server.js\<close> and in the version that lists the
  page. The debug route answers the stored document with every access token replaced
  by \<^verbatim>\<open>***len:N\<close>, \<open>N\<close> being the length of the token, in both versions of the mask. The
  stored document is an object with distinct keys whose records are objects with
  string tokens; a record without a token, or with the empty string for one, is shown
  as it is.
\<close>

theorem tokens_not_exposed:
  "(strip_tokens (loadJSON fs1 (ACCOUNTS_FILE cfg)) = strip_tokens (loadJSON fs2 (ACCOUNTS_FILE cfg))
      \<longrightarrow> get_accounts cfg fs1 = get_accounts cfg fs2
        \<and> get_accounts_page cfg fs1 = get_accounts_page cfg fs2)
   \<and> (loadJSON fs (ACCOUNTS_FILE cfg) = Obj kvs \<and> distinct (map fst kvs) \<and> string_tokens kvs
      \<longrightarrow> debug_read_accounts cfg fs
            = res_json 200 (Obj (map (\<lambda>kv. (fst kv, hide_token (snd kv))) kvs))
        \<and> debug_read_accounts_page cfg fs
            = res_json 200 (Obj (map (\<lambda>kv. (fst kv, hide_token (snd kv))) kvs)))
   \<and> (own r ''accessToken'' = Some (Str t) \<and> t \<noteq> []
      \<longrightarrow> opt_field (hide_token (Obj r)) ''accessToken'' = Str (''***len:'' @ digits (length t)))"
proof (intro conjI impI)
  assume "strip_tokens (loadJSON fs1 (ACCOUNTS_FILE cfg)) = strip_tokens (loadJSON fs2 (ACCOUNTS_FILE cfg))"
  then show "get_accounts cfg fs1 = get_accounts cfg fs2"
    and "get_accounts_page cfg fs1 = get_accounts_page cfg fs2"
    by (rule get_accounts_strip, rule get_accounts_page_strip)
next
  assume h: "loadJSON fs (ACCOUNTS_FILE cfg) = Obj kvs \<and> distinct (map fst kvs) \<and> string_tokens kvs"
  then have one: "mask_tokens mask_length (Obj kvs)
      = Inr (Obj (map (\<lambda>kv. (fst kv, hide_token (snd kv))) kvs))"
    and two: "mask_tokens mask_string_length (Obj kvs)
      = Inr (Obj (map (\<lambda>kv. (fst kv, hide_token (snd kv))) kvs))"
    by (simp_all add: mask_tokens_hide mask_length_Str mask_string_length_Str
        del: mask_tokens.simps)
  from h one show "debug_read_accounts cfg fs
            = res_json 200 (Obj (map (\<lambda>kv. (fst kv, hide_token (snd kv))) kvs))"
    by (simp add: debug_read_accounts_def debug_read_accounts_with_def del: mask_tokens.simps)
  from h two show "debug_read_accounts_page cfg fs
            = res_json 200 (Obj (map (\<lambda>kv. (fst kv, hide_token (snd kv))) kvs))"
    by (simp add: debug_read_accounts_page_def debug_read_accounts_with_def
        del: mask_tokens.simps)
next
  assume h: "own r ''accessToken'' = Some (Str t) \<and> t \<noteq> []"
  then have "''accessToken'' \<in> set (map fst r)" using own_in_keys [of r "''accessToken''"] by blast
  with h show "opt_field (hide_token (Obj r)) ''accessToken'' = Str (''***len:'' @ digits (length t))"
    by (cases t) (simp_all add: opt_field_def own_replace_own)
qed

lemma one_account_doc:
  "loadJSON one_account_disk (ACCOUNTS_FILE sample_cfg) =
     Obj [(''17841400000000001'',
           Obj [(''accessToken'', Str ''OLDTOKEN''),
                (''username'', Str ''Instagram-17841400000000001''),
                (''buckets'', Arr [Str ''morning'', Str ''evening''])])]"
  by (simp add: loadJSON_def loadJSON_try_def existsSync_def readFileSync_def JSON_parse_def
      one_account_disk_def sample_cfg_def)

lemma other_token_doc:
  "loadJSON other_token_disk (ACCOUNTS_FILE sample_cfg) =
     Obj [(''17841400000000001'',
           Obj [(''accessToken'', Str ''EAAB-another-token''),
                (''username'', Str ''Instagram-17841400000000001''),
                (''buckets'', Arr [Str ''morning'', Str ''evening''])])]"
  by (simp add: loadJSON_def loadJSON_try_def existsSync_def readFileSync_def JSON_parse_def
      other_token_disk_def sample_cfg_def)

theorem tokens_not_exposed_witness:
  "strip_tokens (loadJSON one_account_disk (ACCOUNTS_FILE sample_cfg))
     = strip_tokens (loadJSON other_token_disk (ACCOUNTS_FILE sample_cfg))
   \<and> get_accounts sample_cfg one_account_disk = get_accounts sample_cfg other_token_disk
   \<and> debug_read_accounts sample_cfg one_account_disk =
       \<lparr>status = 200, sent = SendJson (Obj [(''17841400000000001'',
           Obj [(''accessToken'', Str ''***len:8''),
                (''username'', Str ''Instagram-17841400000000001''),
                (''buckets'', Arr [Str ''morning'', Str ''evening''])])])\<rparr>"
proof -
  let ?kvs = "[(''17841400000000001'',
           Obj [(''accessToken'', Str ''OLDTOKEN''),
                (''username'', Str ''Instagram-17841400000000001''),
                (''buckets'', Arr [Str ''morning'', Str ''evening''])])]"
  have a: "strip_tokens (loadJSON one_account_disk (ACCOUNTS_FILE sample_cfg))
     = strip_tokens (loadJSON other_token_disk (ACCOUNTS_FILE sample_cfg))"
    by (simp add: one_account_doc other_token_doc)
  have b: "loadJSON one_account_disk (ACCOUNTS_FILE sample_cfg) = Obj ?kvs
     \<and> distinct (map fst ?kvs) \<and> string_tokens ?kvs"
    by (simp add: one_account_doc string_tokens_def own_def)
  have c: "res_json 200 (Obj (map (\<lambda>kv. (fst kv, hide_token (snd kv))) ?kvs)) =
       \<lparr>status = 200, sent = SendJson (Obj [(''17841400000000001'',
           Obj [(''accessToken'', Str ''***len:8''),
                (''username'', Str ''Instagram-17841400000000001''),
                (''buckets'', Arr [Str ''morning'', Str ''evening''])])])\<rparr>"
    by code_simp
  from a b c
    tokens_not_exposed [of one_account_disk sample_cfg other_token_disk one_account_disk ?kvs]
  show ?thesis by simp
qed

section \<open>The upsert of the account record\<close>

lemma clean_replace_own:
  "is_json_props kvs \<Longrightarrow> v \<noteq> Undefined
   \<Longrightarrow> clean_props (replace_own k v kvs) = replace_own k (clean v) kvs"
  by (induction k v kvs rule: replace_own.induct) (auto simp: clean_is_json)

lemma clean_insert_index:
  "is_json_props kvs \<Longrightarrow> v \<noteq> Undefined
   \<Longrightarrow> clean_props (insert_index k v kvs) = insert_index k (clean v) kvs"
  by (induction k v kvs rule: insert_index.induct) (auto simp: clean_is_json)

lemma clean_append:
  "is_json_props kvs \<Longrightarrow> v \<noteq> Undefined
   \<Longrightarrow> clean_props (kvs @ [(k, v)]) = kvs @ [(k, clean v)]"
  by (induction kvs) (auto simp: clean_is_json)

lemma clean_obj_set:
  "is_json_props kvs \<Longrightarrow> v \<noteq> Undefined
   \<Longrightarrow> clean_props (obj_set kvs k v) = obj_set kvs k (clean v)"
  by (simp add: obj_set_def clean_replace_own clean_insert_index clean_append clean_is_json)

lemma load_after_upsert:
  assumes "is_json (Obj kvs)" and "\<not> refuses fs f"
  shows "loadJSON (saveJSON fs f (Obj (obj_set kvs k (Obj r)))) f
           = Obj (obj_set kvs k (Obj (clean_props r)))"
  using assms
  by (simp add: saveJSON_def stringify_def clean_obj_set loadJSON_def loadJSON_try_def
      existsSync_def readFileSync_def JSON_parse_def)

lemma probe_page_id:
  "probe_page get t p = Some found
   \<Longrightarrow> truthy found \<and> (\<exists>s. to_string (opt_field p ''id'') = Inr s)"
  by (auto simp: probe_page_def then_do_def opt_field_def Let_def split: sum.splits if_splits)

lemma scan_page_tokens_found:
  "scan_page_tokens get ps = Inr (Some (found, p))
   \<Longrightarrow> truthy found \<and> (\<exists>s. to_string (opt_field p ''id'') = Inr s)"
proof (induction ps)
  case Nil
  then show ?case by simp
next
  case (Cons q ps)
  then show ?case
    using probe_page_id [of get _ q]
    by (auto split: sum.splits if_splits option.splits)
qed

lemma find_on_pages_found:
  "find_on_pages get tok = Inr (found, p)
   \<Longrightarrow> truthy found \<and> (\<exists>s. to_string (opt_field p ''id'') = Inr s)"
  using scan_page_tokens_found [of get _ found p]
  by (auto simp: find_on_pages_def then_do_def Let_def split: if_splits sum.splits option.splits)

lemma prepare_account_result:
  assumes "exchange_tokens cfg get code uri = Inr tok"
    and "find_on_pages get tok = Inr (ig, p)"
    and "to_string ig = Inr k"
    and "to_string (opt_field p ''name'') = Inr n"
    and "loadJSON fs (ACCOUNTS_FILE cfg) = Obj kvs"
  shows "prepare_account cfg get fs code uri
           = Inr (Obj (obj_set kvs k (Obj (page_record get tok k p))), fetch_username get k p, p)"
proof -
  from assms(2) obtain s where "to_string (opt_field p ''id'') = Inr s"
    using find_on_pages_found by blast
  with assms show ?thesis
    by (simp add: prepare_account_def then_do_def Let_def page_record_def)
qed

lemma callback_page_tokens_result:
  assumes "truthy (query_code req)"
    and "exchange_tokens cfg get (query_code req) (buildBaseUrl req @ ''/auth/instagram/callback'') = Inr tok"
    and "find_on_pages get tok = Inr (ig, p)"
    and "to_string ig = Inr k"
    and "to_string (opt_field p ''name'') = Inr n"
    and "loadJSON fs (ACCOUNTS_FILE cfg) = Obj kvs"
    and "to_string (fetch_username get k p) = Inr u"
  shows "callback_page_tokens cfg get fs req
           = (\<lparr>status = 200, sent = SendConnectedVia u n\<rparr>,
              saveJSON fs (ACCOUNTS_FILE cfg) (Obj (obj_set kvs k (Obj (page_record get tok k p)))))"
  using assms(1,5,7) prepare_account_result [OF assms(2,3,4,5,6)]
  by (simp add: callback_page_tokens_def Let_def then_do_def)

lemma save_account_result:
  assumes "to_string ig = Inr k" and "loadJSON fs (ACCOUNTS_FILE cfg) = Obj kvs"
  shows "save_account cfg fs tok ig
           = Inr (saveJSON fs (ACCOUNTS_FILE cfg) (Obj (obj_set kvs k (Obj (plain_record tok k)))))"
  using assms by (simp add: save_account_def Let_def then_do_def plain_record_def)

lemma page_record_fields:
  "own (clean_props (page_record get tok k p)) ''buckets'' = Some (Arr [])"
  "own (clean_props (page_record get tok k p)) ''igUsername''
     = (if fetch_username get k p = Undefined then None else Some (clean (fetch_username get k p)))"
  by (simp_all add: page_record_def own_def)

lemma plain_record_fields:
  "own (clean_props (plain_record tok k)) ''buckets'' = Some (Arr [])"
  "own (clean_props (plain_record tok k)) ''username'' = Some (Str (''Instagram-'' @ k))"
  by (simp_all add: plain_record_def own_def)



lemma callback_pages_result:
  assumes "truthy (query_code req)"
    and "exchange_tokens cfg get (query_code req) (buildBaseUrl req @ ''/auth/instagram/callback'') = Inr tok"
    and "find_on_user_pages get tok = Inr ig"
    and "to_string ig = Inr k"
    and "loadJSON fs (ACCOUNTS_FILE cfg) = Obj kvs"
  shows "callback_pages cfg get fs req
           = (\<lparr>status = 200, sent = SendConnected\<rparr>,
              saveJSON fs (ACCOUNTS_FILE cfg) (Obj (obj_set kvs k (Obj (plain_record tok k)))))"
  using assms(1,2,3) save_account_result [OF assms(4,5)]
  by (simp add: callback_pages_def callback_pages_try_def Let_def then_do_def)

text \<open>
  C3, as amended. A successful callback whose identifier already has a stored record
  replaces the whole record: the new record holds the new token, the name and, in the
  version with page tokens, the page fields, and its bucket list is the empty list.
  The stored document is an object of the JSON data model and the write of the file
  succeeds. The first part is the callback that uses page access tokens, the second
  the callback of \<^verbatim>\<open>server.js\<close>.
\<close>

theorem upsert_replaces_record:
  "(truthy (query_code req)
      \<and> exchange_tokens cfg get (query_code req) (buildBaseUrl req @ ''/auth/instagram/callback'') = Inr tok
      \<and> find_on_pages get tok = Inr (ig, p) \<and> to_string ig = Inr k
      \<and> to_string (opt_field p ''name'') = Inr n \<and> to_string (fetch_username get k p) = Inr u
      \<and> loadJSON fs (ACCOUNTS_FILE cfg) = Obj kvs \<and> is_json (Obj kvs) \<and> own kvs k = Some old
      \<and> \<not> refuses fs (ACCOUNTS_FILE cfg)
      \<longrightarrow> fst (callback_page_tokens cfg get fs req) = \<lparr>status = 200, sent = SendConnectedVia u n\<rparr>
        \<and> loadJSON (snd (callback_page_tokens cfg get fs req)) (ACCOUNTS_FILE cfg)
             = Obj (replace_own k (Obj (clean_props (page_record get tok k p))) kvs)
        \<and> own (replace_own k (Obj (clean_props (page_record get tok k p))) kvs) k
             = Some (Obj (clean_props (page_record get tok k p)))
        \<and> own (clean_props (page_record get tok k p)) ''buckets'' = Some (Arr []))
   \<and> (truthy (query_code req)
      \<and> exchange_tokens cfg get (query_code req) (buildBaseUrl req @ ''/auth/instagram/callback'') = Inr tok
      \<and> find_on_user_pages get tok = Inr ig \<and> to_string ig = Inr k
      \<and> loadJSON fs (ACCOUNTS_FILE cfg) = Obj kvs \<and> is_json (Obj kvs)
      \<and> own kvs k = Some old \<and> \<not> refuses fs (ACCOUNTS_FILE cfg)
      \<longrightarrow> fst (callback_pages cfg get fs req) = \<lparr>status = 200, sent = SendConnected\<rparr>
        \<and> loadJSON (snd (callback_pages cfg get fs req)) (ACCOUNTS_FILE cfg)
             = Obj (replace_own k (Obj (clean_props (plain_record tok k))) kvs)
        \<and> own (replace_own k (Obj (clean_props (plain_record tok k))) kvs) k
             = Some (Obj (clean_props (plain_record tok k)))
        \<and> own (clean_props (plain_record tok k)) ''buckets'' = Some (Arr []))"
proof (intro conjI impI)
  assume h: "truthy (query_code req)
      \<and> exchange_tokens cfg get (query_code req) (buildBaseUrl req @ ''/auth/instagram/callback'') = Inr tok
      \<and> find_on_pages get tok = Inr (ig, p) \<and> to_string ig = Inr k
      \<and> to_string (opt_field p ''name'') = Inr n \<and> to_string (fetch_username get k p) = Inr u
      \<and> loadJSON fs (ACCOUNTS_FILE cfg) = Obj kvs \<and> is_json (Obj kvs) \<and> own kvs k = Some old
      \<and> \<not> refuses fs (ACCOUNTS_FILE cfg)"
  then have k_in: "k \<in> set (map fst kvs)" using own_in_keys [of kvs k old] by blast
  then have set: "obj_set kvs k v = replace_own k v kvs" for v by (simp add: obj_set_def)
  from h have h1: "truthy (query_code req)"
    and h2: "exchange_tokens cfg get (query_code req) (buildBaseUrl req @ ''/auth/instagram/callback'') = Inr tok"
    and h3: "find_on_pages get tok = Inr (ig, p)" and h4: "to_string ig = Inr k"
    and h5: "to_string (opt_field p ''name'') = Inr n"
    and h6: "to_string (fetch_username get k p) = Inr u"
    and h7: "loadJSON fs (ACCOUNTS_FILE cfg) = Obj kvs" and h8: "is_json (Obj kvs)"
    and h9: "\<not> refuses fs (ACCOUNTS_FILE cfg)"
    by blast+
  have res: "callback_page_tokens cfg get fs req
           = (\<lparr>status = 200, sent = SendConnectedVia u n\<rparr>,
              saveJSON fs (ACCOUNTS_FILE cfg) (Obj (obj_set kvs k (Obj (page_record get tok k p)))))"
    by (rule callback_page_tokens_result [OF h1 h2 h3 h4 h5 h7 h6])
  have load: "loadJSON (saveJSON fs (ACCOUNTS_FILE cfg) (Obj (obj_set kvs k (Obj (page_record get tok k p)))))
                (ACCOUNTS_FILE cfg)
           = Obj (obj_set kvs k (Obj (clean_props (page_record get tok k p))))"
    by (rule load_after_upsert [OF h8 h9])
  from res show "fst (callback_page_tokens cfg get fs req) = \<lparr>status = 200, sent = SendConnectedVia u n\<rparr>"
    by simp
  from res load show "loadJSON (snd (callback_page_tokens cfg get fs req)) (ACCOUNTS_FILE cfg)
             = Obj (replace_own k (Obj (clean_props (page_record get tok k p))) kvs)"
    by (simp add: set)
  from k_in show "own (replace_own k (Obj (clean_props (page_record get tok k p))) kvs) k
             = Some (Obj (clean_props (page_record get tok k p)))"
    by (simp add: own_replace_own)
  show "own (clean_props (page_record get tok k p)) ''buckets'' = Some (Arr [])"
    by (rule page_record_fields)
next
  assume h: "truthy (query_code req)
      \<and> exchange_tokens cfg get (query_code req) (buildBaseUrl req @ ''/auth/instagram/callback'') = Inr tok
      \<and> find_on_user_pages get tok = Inr ig \<and> to_string ig = Inr k
      \<and> loadJSON fs (ACCOUNTS_FILE cfg) = Obj kvs \<and> is_json (Obj kvs)
      \<and> own kvs k = Some old \<and> \<not> refuses fs (ACCOUNTS_FILE cfg)"
  then have k_in: "k \<in> set (map fst kvs)" using own_in_keys [of kvs k old] by blast
  then have set: "obj_set kvs k v = replace_own k v kvs" for v by (simp add: obj_set_def)
  from h have h1: "truthy (query_code req)"
    and h2: "exchange_tokens cfg get (query_code req) (buildBaseUrl req @ ''/auth/instagram/callback'') = Inr tok"
    and h3: "find_on_user_pages get tok = Inr ig" and h4: "to_string ig = Inr k"
    and h7: "loadJSON fs (ACCOUNTS_FILE cfg) = Obj kvs" and h8: "is_json (Obj kvs)"
    and h9: "\<not> refuses fs (ACCOUNTS_FILE cfg)"
    by blast+
  have res: "callback_pages cfg get fs req
           = (\<lparr>status = 200, sent = SendConnected\<rparr>,
              saveJSON fs (ACCOUNTS_FILE cfg) (Obj (obj_set kvs k (Obj (plain_record tok k)))))"
    by (rule callback_pages_result [OF h1 h2 h3 h4 h7])
  have load: "loadJSON (saveJSON fs (ACCOUNTS_FILE cfg) (Obj (obj_set kvs k (Obj (plain_record tok k)))))
                (ACCOUNTS_FILE cfg)
           = Obj (obj_set kvs k (Obj (clean_props (plain_record tok k))))"
    by (rule load_after_upsert [OF h8 h9])
  from res show "fst (callback_pages cfg get fs req) = \<lparr>status = 200, sent = SendConnected\<rparr>"
    by simp
  from res load show "loadJSON (snd (callback_pages cfg get fs req)) (ACCOUNTS_FILE cfg)
             = Obj (replace_own k (Obj (clean_props (plain_record tok k))) kvs)"
    by (simp add: set)
  from k_in show "own (replace_own k (Obj (clean_props (plain_record tok k))) kvs) k
             = Some (Obj (clean_props (plain_record tok k)))"
    by (simp add: own_replace_own)
  show "own (clean_props (plain_record tok k)) ''buckets'' = Some (Arr [])"
    by (rule plain_record_fields)
qed

lemma page_provider_exchange:
  "exchange_tokens sample_cfg (page_provider a) (Str ''AUTHCODE'') uri = Inr (Str ''LONGTOKEN'')"
  by (simp add: exchange_tokens_def then_do_def page_provider_def own_def)

lemma page_provider_found:
  "find_on_pages (page_provider a) (Str ''LONGTOKEN'') = Inr (Str ''17841400000000001'', sample_page)"
  by (simp add: find_on_pages_def list_pages_def page_provider_def graph_def probe_page_def
      then_do_def opt_field_def own_def js_or_def sample_page_def)

lemma page_provider_user_pages:
  "find_on_user_pages (page_provider a) (Str ''LONGTOKEN'') = Inr (Str ''17841400000000001'')"
  by (simp add: find_on_user_pages_def page_provider_def graph_def probe_page_def
      then_do_def opt_field_def own_def js_or_def)

lemma page_provider_name:
  "fetch_username (page_provider a) ''17841400000000001'' sample_page =
     (case a of Inl e \<Rightarrow> Str ''Instagram-17841400000000001''
      | Inr d \<Rightarrow> if truthy (opt_field d ''username'') then opt_field d ''username''
                 else Str ''Instagram-17841400000000001'')"
  by (simp add: fetch_username_def page_provider_def graph_def split: sum.splits)




lemma one_account_doc':
  "loadJSON one_account_disk (ACCOUNTS_FILE sample_cfg) = Obj [(''17841400000000001'', sample_old_record)]"
  by (simp add: one_account_doc sample_old_record_def)

lemma shop_record:
  "clean_props (page_record (page_provider shop_name) (Str ''LONGTOKEN'') ''17841400000000001'' sample_page)
      = [(''accessToken'', Str ''LONGTOKEN''), (''pageId'', Str ''101''),
         (''pageName'', Str ''Page''), (''igUsername'', Str ''shop''), (''buckets'', Arr [])]"
  by (simp add: page_record_def page_provider_name shop_name_def)
    (simp add: sample_page_def opt_field_def own_def)

lemma shop_callback:
  "callback_page_tokens sample_cfg (page_provider shop_name) one_account_disk callback_request
     = (\<lparr>status = 200, sent = SendConnectedVia ''shop'' ''Page''\<rparr>,
        saveJSON one_account_disk (ACCOUNTS_FILE sample_cfg)
          (Obj (obj_set [(''17841400000000001'', sample_old_record)] ''17841400000000001''
             (Obj (page_record (page_provider shop_name) (Str ''LONGTOKEN'') ''17841400000000001''
                sample_page)))))"
proof -
  have a1: "truthy (query_code callback_request)" by (simp add: callback_request_def)
  have a2: "exchange_tokens sample_cfg (page_provider shop_name) (query_code callback_request)
      (buildBaseUrl callback_request @ ''/auth/instagram/callback'') = Inr (Str ''LONGTOKEN'')"
    by (simp add: callback_request_def page_provider_exchange)
  have a4: "to_string (Str ''17841400000000001'') = Inr ''17841400000000001''" by simp
  have a5: "to_string (opt_field sample_page ''name'') = Inr ''Page''"
    by (simp add: sample_page_def opt_field_def own_def)
  have a6: "to_string (fetch_username (page_provider shop_name) ''17841400000000001'' sample_page)
      = Inr ''shop''"
    by (simp add: page_provider_name shop_name_def opt_field_def own_def)
  show ?thesis
    by (rule callback_page_tokens_result [OF a1 a2 page_provider_found a4 a5 one_account_doc' a6])
qed

lemma one_account_writable: "\<not> refuses one_account_disk (ACCOUNTS_FILE sample_cfg)"
  by (simp add: one_account_disk_def)

lemma plain_sample_record:
  "clean_props (plain_record (Str ''LONGTOKEN'') ''17841400000000001'')
     = [(''accessToken'', Str ''LONGTOKEN''), (''username'', Str ''Instagram-17841400000000001''),
        (''buckets'', Arr [])]"
  by (simp add: plain_record_def)

lemma shop_callback_pages:
  "callback_pages sample_cfg (page_provider shop_name) one_account_disk callback_request
     = (\<lparr>status = 200, sent = SendConnected\<rparr>,
        saveJSON one_account_disk (ACCOUNTS_FILE sample_cfg)
          (Obj (obj_set [(''17841400000000001'', sample_old_record)] ''17841400000000001''
             (Obj (plain_record (Str ''LONGTOKEN'') ''17841400000000001'')))))"
proof -
  have a1: "truthy (query_code callback_request)" by (simp add: callback_request_def)
  have a2: "exchange_tokens sample_cfg (page_provider shop_name) (query_code callback_request)
      (buildBaseUrl callback_request @ ''/auth/instagram/callback'') = Inr (Str ''LONGTOKEN'')"
    by (simp add: callback_request_def page_provider_exchange)
  have a4: "to_string (Str ''17841400000000001'') = Inr ''17841400000000001''" by simp
  show ?thesis
    by (rule callback_pages_result [OF a1 a2 page_provider_user_pages a4 one_account_doc'])
qed

text \<open>
  C3, as stated, fails: the stored record has the buckets \<^verbatim>\<open>morning\<close> and \<^verbatim>\<open>evening\<close>, the
  callback succeeds for the same identifier, and afterwards the bucket list of the
  record is empty, in the callback that uses page access tokens and in the one of
  \<^verbatim>\<open>server.js\<close>.
\<close>

theorem buckets_kept_counterexample:
  "opt_field (opt_field (loadJSON one_account_disk (ACCOUNTS_FILE sample_cfg)) ''17841400000000001'')
       ''buckets'' = Arr [Str ''morning'', Str ''evening'']
   \<and> fst (callback_page_tokens sample_cfg (page_provider shop_name) one_account_disk callback_request)
       = \<lparr>status = 200, sent = SendConnectedVia ''shop'' ''Page''\<rparr>
   \<and> opt_field (opt_field (loadJSON
         (snd (callback_page_tokens sample_cfg (page_provider shop_name) one_account_disk callback_request))
         (ACCOUNTS_FILE sample_cfg)) ''17841400000000001'') ''buckets'' = Arr []
   \<and> fst (callback_pages sample_cfg (page_provider shop_name) one_account_disk callback_request)
       = \<lparr>status = 200, sent = SendConnected\<rparr>
   \<and> opt_field (opt_field (loadJSON
         (snd (callback_pages sample_cfg (page_provider shop_name) one_account_disk callback_request))
         (ACCOUNTS_FILE sample_cfg)) ''17841400000000001'') ''buckets'' = Arr []"
proof -
  have before: "opt_field (opt_field (loadJSON one_account_disk (ACCOUNTS_FILE sample_cfg)) ''17841400000000001'')
       ''buckets'' = Arr [Str ''morning'', Str ''evening'']"
    by (simp add: one_account_doc opt_field_def own_def)
  have json: "is_json (Obj [(''17841400000000001'', sample_old_record)])"
    by (simp add: sample_old_record_def)
  then have "loadJSON (snd (callback_page_tokens sample_cfg (page_provider shop_name) one_account_disk
         callback_request)) (ACCOUNTS_FILE sample_cfg)
      = Obj (obj_set [(''17841400000000001'', sample_old_record)] ''17841400000000001''
          (Obj (clean_props (page_record (page_provider shop_name) (Str ''LONGTOKEN'')
              ''17841400000000001'' sample_page))))"
    by (simp only: shop_callback snd_conv load_after_upsert [OF _ one_account_writable])
  then have after: "opt_field (opt_field (loadJSON
         (snd (callback_page_tokens sample_cfg (page_provider shop_name) one_account_disk callback_request))
         (ACCOUNTS_FILE sample_cfg)) ''17841400000000001'') ''buckets'' = Arr []"
    by (simp add: shop_record obj_set_def opt_field_def own_def)
  from json have "loadJSON (snd (callback_pages sample_cfg (page_provider shop_name) one_account_disk
         callback_request)) (ACCOUNTS_FILE sample_cfg)
      = Obj (obj_set [(''17841400000000001'', sample_old_record)] ''17841400000000001''
          (Obj (clean_props (plain_record (Str ''LONGTOKEN'') ''17841400000000001''))))"
    by (simp only: shop_callback_pages snd_conv load_after_upsert [OF _ one_account_writable])
  then have after_pages: "opt_field (opt_field (loadJSON
         (snd (callback_pages sample_cfg (page_provider shop_name) one_account_disk callback_request))
         (ACCOUNTS_FILE sample_cfg)) ''17841400000000001'') ''buckets'' = Arr []"
    by (simp add: plain_sample_record obj_set_def opt_field_def own_def)
  from before after after_pages shop_callback shop_callback_pages show ?thesis by simp
qed

theorem upsert_replaces_record_witness:
  "fst (callback_page_tokens sample_cfg (page_provider shop_name) one_account_disk callback_request)
       = \<lparr>status = 200, sent = SendConnectedVia ''shop'' ''Page''\<rparr>
   \<and> loadJSON (snd (callback_page_tokens sample_cfg (page_provider shop_name) one_account_disk
         callback_request)) (ACCOUNTS_FILE sample_cfg)
       = Obj [(''17841400000000001'',
               Obj [(''accessToken'', Str ''LONGTOKEN''), (''pageId'', Str ''101''),
                    (''pageName'', Str ''Page''), (''igUsername'', Str ''shop''), (''buckets'', Arr [])])]
   \<and> fst (callback_pages sample_cfg (page_provider shop_name) one_account_disk callback_request)
       = \<lparr>status = 200, sent = SendConnected\<rparr>
   \<and> loadJSON (snd (callback_pages sample_cfg (page_provider shop_name) one_account_disk
         callback_request)) (ACCOUNTS_FILE sample_cfg)
       = Obj [(''17841400000000001'',
               Obj [(''accessToken'', Str ''LONGTOKEN''),
                    (''username'', Str ''Instagram-17841400000000001''),
                    (''buckets'', Arr [])])]"
proof -
  have h: "truthy (query_code callback_request)
      \<and> exchange_tokens sample_cfg (page_provider shop_name) (query_code callback_request)
          (buildBaseUrl callback_request @ ''/auth/instagram/callback'') = Inr (Str ''LONGTOKEN'')
      \<and> find_on_pages (page_provider shop_name) (Str ''LONGTOKEN'')
          = Inr (Str ''17841400000000001'', sample_page)
      \<and> find_on_user_pages (page_provider shop_name) (Str ''LONGTOKEN'')
          = Inr (Str ''17841400000000001'')
      \<and> to_string (Str ''17841400000000001'') = Inr ''17841400000000001''
      \<and> to_string (opt_field sample_page ''name'') = Inr ''Page''
      \<and> to_string (fetch_username (page_provider shop_name) ''17841400000000001'' sample_page) = Inr ''shop''
      \<and> loadJSON one_account_disk (ACCOUNTS_FILE sample_cfg) = Obj [(''17841400000000001'', sample_old_record)]
      \<and> is_json (Obj [(''17841400000000001'', sample_old_record)])
      \<and> own [(''17841400000000001'', sample_old_record)] ''17841400000000001'' = Some sample_old_record
      \<and> \<not> refuses one_account_disk (ACCOUNTS_FILE sample_cfg)"
    by (simp add: callback_request_def page_provider_exchange page_provider_found
        page_provider_user_pages one_account_doc' one_account_writable page_provider_name)
      (simp add: shop_name_def sample_page_def sample_old_record_def opt_field_def own_def)
  from h upsert_replaces_record [of callback_request sample_cfg "page_provider shop_name"
      "Str ''LONGTOKEN''" "Str ''17841400000000001''" sample_page "''17841400000000001''"
      "''Page''" "''shop''" one_account_disk "[(''17841400000000001'', sample_old_record)]"
      sample_old_record]
  have "fst (callback_page_tokens sample_cfg (page_provider shop_name) one_account_disk callback_request)
       = \<lparr>status = 200, sent = SendConnectedVia ''shop'' ''Page''\<rparr>
    \<and> loadJSON (snd (callback_page_tokens sample_cfg (page_provider shop_name) one_account_disk
         callback_request)) (ACCOUNTS_FILE sample_cfg)
       = Obj (replace_own ''17841400000000001''
           (Obj (clean_props (page_record (page_provider shop_name) (Str ''LONGTOKEN'')
              ''17841400000000001'' sample_page)))
           [(''17841400000000001'', sample_old_record)])
    \<and> fst (callback_pages sample_cfg (page_provider shop_name) one_account_disk callback_request)
       = \<lparr>status = 200, sent = SendConnected\<rparr>
    \<and> loadJSON (snd (callback_pages sample_cfg (page_provider shop_name) one_account_disk
         callback_request)) (ACCOUNTS_FILE sample_cfg)
       = Obj (replace_own ''17841400000000001''
                    (Obj (clean_props (plain_record (Str ''LONGTOKEN'') ''17841400000000001'')))
                    [(''17841400000000001'', sample_old_record)])"
    by blast
  then show ?thesis by (simp add: shop_record plain_sample_record)
qed

end
